theory Spec2Isabelle
  imports Complex_Main
begin

section \<open>Invoice PDF layout: a shallow embedding of the two \<open>generateInvoice\<close> functions\<close>

text \<open>
  The development models the rendering code of the invoice generator:
  \<^item> \<open>formatDate\<close> of \<^verbatim>\<open>app/utils/format-utils.ts\<close>;
  \<^item> \<open>generateInvoice\<close> of the client-side actions module (the layout with the status badge,
    the tax lines and the payment information), here \<open>generateInvoice\<close>;
  \<^item> \<open>generateInvoice\<close> of \<^verbatim>\<open>app/actions/invoice-actions.ts\<close> (the layout with the notes
    block), here \<open>generateInvoice_actions\<close>.

  Conventions of the model.
  \<^item> An amount of money is a JavaScript \<open>number\<close>: an IEEE 754 double, an infinity or
    \<open>NaN\<close>. The products and sums of the two functions and \<open>toFixed\<close> round as the language
    prescribes. The sign of a zero is not modelled: no operation of the two functions tells
    \<open>-0\<close> from \<open>0\<close>. A quantity is an \<open>int\<close>, as the form schema validates it. The
    coordinates of the layout, which are integer offsets from the corners of the page, are
    \<open>real\<close>s.
  \<^item> A JavaScript string is a \<open>string\<close> of ASCII characters; case mapping and white space
    outside ASCII are not modelled.
  \<^item> The page is the ordered list of drawing calls made on it, each with the options it is
    given. The PDF library itself is outside the repository: its serialisation of the page
    (\<open>pdfDoc.save\<close>) and its failures (a font it cannot embed, a character it cannot
    encode) are not modelled.
  \<^item> The runtime's clock and its time zone, which \<open>new Date()\<close> and the local getters of
    \<open>Date\<close> read, are an explicit argument, and so is the engine's own parser for date
    strings outside the ECMAScript format. The time zone is the offset from UTC at each
    instant, so that it may follow daylight saving.
  \<^item> The function assigns to a field of its argument; the model returns the record as the
    call leaves it, next to the page.
\<close>

subsection \<open>Strings\<close>

definition toUpperChar :: "char \<Rightarrow> char" where
  "toUpperChar c =
     (case map_of (zip ''abcdefghijklmnopqrstuvwxyz'' ''ABCDEFGHIJKLMNOPQRSTUVWXYZ'') c of
        Some u \<Rightarrow> u
      | None \<Rightarrow> c)"

text \<open>\<open>String.prototype.toUpperCase\<close>, on ASCII.\<close>

definition toUpperCase :: "string \<Rightarrow> string" where
  "toUpperCase s = map toUpperChar s"

text \<open>The line feed \<open>"\n"\<close>.\<close>

definition LF :: char where
  "LF = CHR 0x0A"

text \<open>
  \<open>s.split("\n")\<close>: the pieces between line feeds, in order. The empty string gives one empty
  piece, and a trailing line feed gives a last empty piece. A character other than the line
  feed joins the first piece of the rest; the rest always has one, so the last case is never
  taken.
\<close>

fun split_lines :: "string \<Rightarrow> string list" where
  "split_lines [] = [[]]"
| "split_lines (c # cs) =
     (if c = LF then [] # split_lines cs
      else (case split_lines cs of
              piece # pieces \<Rightarrow> (c # piece) # pieces
            | [] \<Rightarrow> [[c]]))"

text \<open>The ASCII white space and line terminators that \<open>trim\<close> removes.\<close>

definition isWhiteSpace :: "char \<Rightarrow> bool" where
  "isWhiteSpace c \<longleftrightarrow> c \<in> set [CHR 0x09, CHR 0x0A, CHR 0x0B, CHR 0x0C, CHR 0x0D, CHR '' '']"

text \<open>\<open>String.prototype.trim\<close>.\<close>

definition trim :: "string \<Rightarrow> string" where
  "trim s = rev (dropWhile isWhiteSpace (rev (dropWhile isWhiteSpace s)))"

subsection \<open>Numbers\<close>

text \<open>
  The binary exponent of a positive real: the \<open>e\<close> with \<open>2^e \<le> x < 2^(e+1)\<close>.
\<close>

function expo :: "real \<Rightarrow> int" where
  "expo x =
     (if x \<le> 0 then 0
      else if x < 1 then expo (2 * x) - 1
      else if 2 \<le> x then expo (x / 2) + 1
      else 0)"
  by pat_completeness auto
termination
proof (relation "measure (\<lambda>x. nat \<bar>\<lfloor>log 2 x\<rfloor>\<bar>)")
  show "wf (measure (\<lambda>x. nat \<bar>\<lfloor>log 2 x\<rfloor>\<bar>))"
    by simp
next
  fix x :: real
  assume a: "\<not> x \<le> 0" "x < 1"
  define f where "f = \<lfloor>log 2 x\<rfloor>"
  have "log 2 (2 * x) = 1 + log 2 x"
    using a by (simp add: log_mult)
  then have g: "\<lfloor>log 2 (2 * x)\<rfloor> = 1 + f"
    unfolding f_def by simp
  have "log 2 x < 0"
    using a by simp
  then have "f < 0"
    unfolding f_def by linarith
  then have "nat \<bar>1 + f\<bar> < nat \<bar>f\<bar>"
    by linarith
  then show "(2 * x, x) \<in> measure (\<lambda>x. nat \<bar>\<lfloor>log 2 x\<rfloor>\<bar>)"
    unfolding in_measure g f_def .
next
  fix x :: real
  assume a: "\<not> x \<le> 0" "\<not> x < 1" "2 \<le> x"
  define f where "f = \<lfloor>log 2 x\<rfloor>"
  have "log 2 (x / 2) = log 2 x - 1"
    using a by (simp add: log_divide)
  then have g: "\<lfloor>log 2 (x / 2)\<rfloor> = f - 1"
    unfolding f_def by simp
  have "1 \<le> log 2 x"
    using a by (simp add: le_log_iff)
  then have "1 \<le> f"
    unfolding f_def by linarith
  then have "nat \<bar>f - 1\<bar> < nat \<bar>f\<bar>"
    by linarith
  then show "(x / 2, x) \<in> measure (\<lambda>x. nat \<bar>\<lfloor>log 2 x\<rfloor>\<bar>)"
    unfolding in_measure g f_def .
qed

declare expo.simps [simp del]

definition pow2 :: "int \<Rightarrow> real" where
  "pow2 e = (if 0 \<le> e then 2 ^ nat e else 1 / 2 ^ nat (- e))"

text \<open>The integer nearest to \<open>y\<close>, the even one of two.\<close>

definition roundHalfEven :: "real \<Rightarrow> int" where
  "roundHalfEven y =
     (let f = \<lfloor>y\<rfloor>; r = y - of_int f
      in if r < 1 / 2 then f
         else if 1 / 2 < r then f + 1
         else if even f then f
         else f + 1)"

text \<open>
  The IEEE 754 binary64 rounding of a real, to nearest with ties to even: the multiple of
  \<open>2^(e - 52)\<close> nearest to \<open>x\<close>, where \<open>e\<close> is the exponent of \<open>x\<close> and at least \<open>-1022\<close>
  (below \<open>2^(-1022)\<close> the doubles are \<open>2^(-1074)\<close> apart). The exponent is not bounded
  above here; \<open>numberValue\<close> does that.
\<close>

definition nearestDouble :: "real \<Rightarrow> real" where
  "nearestDouble x =
     (let e = max (expo \<bar>x\<bar>) (- 1022);
          u = pow2 (e - 52)
      in of_int (roundHalfEven (x / u)) * u)"

text \<open>
  A JavaScript \<open>number\<close>. \<open>Num r\<close> stands for the double nearest to \<open>r\<close>, which is how the
  engine reads a numeric literal or a number in JSON, and \<open>theNumber\<close> gives that double: a
  real beyond the largest double reads as an infinity. The sign of a zero is not kept.
\<close>

datatype number = Num real | PosInfinity | NegInfinity | NaN

definition numberValue :: "real \<Rightarrow> number" where
  "numberValue x =
     (let y = nearestDouble x
      in if pow2 1024 \<le> y then PosInfinity
         else if y \<le> - pow2 1024 then NegInfinity
         else Num y)"

fun theNumber :: "number \<Rightarrow> number" where
  "theNumber (Num r) = numberValue r"
| "theNumber PosInfinity = PosInfinity"
| "theNumber NegInfinity = NegInfinity"
| "theNumber NaN = NaN"

text \<open>
  \<open>Number::multiply\<close> and \<open>Number::add\<close> of the ECMAScript specification, on doubles: the
  exact product or sum, rounded.
\<close>

fun Number_multiply :: "number \<Rightarrow> number \<Rightarrow> number" where
  "Number_multiply NaN b = NaN"
| "Number_multiply a NaN = NaN"
| "Number_multiply (Num x) (Num y) = numberValue (x * y)"
| "Number_multiply (Num x) PosInfinity =
     (if x = 0 then NaN else if 0 < x then PosInfinity else NegInfinity)"
| "Number_multiply (Num x) NegInfinity =
     (if x = 0 then NaN else if 0 < x then NegInfinity else PosInfinity)"
| "Number_multiply PosInfinity (Num y) =
     (if y = 0 then NaN else if 0 < y then PosInfinity else NegInfinity)"
| "Number_multiply NegInfinity (Num y) =
     (if y = 0 then NaN else if 0 < y then NegInfinity else PosInfinity)"
| "Number_multiply PosInfinity PosInfinity = PosInfinity"
| "Number_multiply PosInfinity NegInfinity = NegInfinity"
| "Number_multiply NegInfinity PosInfinity = NegInfinity"
| "Number_multiply NegInfinity NegInfinity = PosInfinity"

fun Number_add :: "number \<Rightarrow> number \<Rightarrow> number" where
  "Number_add NaN b = NaN"
| "Number_add a NaN = NaN"
| "Number_add (Num x) (Num y) = numberValue (x + y)"
| "Number_add (Num x) PosInfinity = PosInfinity"
| "Number_add (Num x) NegInfinity = NegInfinity"
| "Number_add PosInfinity (Num y) = PosInfinity"
| "Number_add NegInfinity (Num y) = NegInfinity"
| "Number_add PosInfinity PosInfinity = PosInfinity"
| "Number_add PosInfinity NegInfinity = NaN"
| "Number_add NegInfinity PosInfinity = NaN"
| "Number_add NegInfinity NegInfinity = NegInfinity"

text \<open>The operators \<open>a * b\<close> and \<open>a + b\<close> on numbers.\<close>

definition numTimes :: "number \<Rightarrow> number \<Rightarrow> number" where
  "numTimes a b = Number_multiply (theNumber a) (theNumber b)"

definition numPlus :: "number \<Rightarrow> number \<Rightarrow> number" where
  "numPlus a b = Number_add (theNumber a) (theNumber b)"

text \<open>An integer quantity as a number.\<close>

definition ofInt :: "int \<Rightarrow> number" where
  "ofInt i = Num (of_int i)"

subsection \<open>Numbers as text\<close>

text \<open>The decimal digits of a natural number, without leading zeros.\<close>

fun digitsOf :: "nat \<Rightarrow> string" where
  "digitsOf n =
     (if n < 10 then [''0123456789'' ! n]
      else digitsOf (n div 10) @ [''0123456789'' ! (n mod 10)])"

declare digitsOf.simps [simp del]

text \<open>\<open>Number.prototype.toString\<close> on an integer, which a template literal applies too.\<close>

definition toString :: "int \<Rightarrow> string" where
  "toString i = (if i < 0 then ''-'' else '''') @ digitsOf (nat \<bar>i\<bar>)"

text \<open>
  From \<open>10^21\<close> on, \<open>toFixed\<close> gives what \<open>Number::toString\<close> gives: the shortest decimal
  that reads back as the same double, in exponent notation. A double of that size is an
  integer \<open>a\<close>. For \<open>p\<close> a power of ten, \<open>below a p\<close> and \<open>below a p + p\<close> are the multiples of
  \<open>p\<close> around \<open>a\<close>; \<open>shortestDecimal\<close> takes the largest \<open>p\<close>, that is the fewest digits, for
  which one of them rounds to \<open>x\<close>, the nearer to \<open>a\<close> when both do, and the one with the even
  last digit when they are as near.
\<close>

definition roundTrips :: "real \<Rightarrow> nat \<Rightarrow> bool" where
  "roundTrips x v \<longleftrightarrow> nearestDouble (real v) = x"

definition below :: "nat \<Rightarrow> nat \<Rightarrow> nat" where
  "below a p = (a div p) * p"

definition nearer :: "nat \<Rightarrow> nat \<Rightarrow> nat" where
  "nearer a p =
     (if a - below a p < below a p + p - a then below a p
      else if below a p + p - a < a - below a p then below a p + p
      else if even (a div p) then below a p
      else below a p + p)"

function shortestDecimal :: "real \<Rightarrow> nat \<Rightarrow> nat \<Rightarrow> nat" where
  "shortestDecimal x a p =
     (if p \<le> 1 then a
      else if roundTrips x (below a p) \<and> roundTrips x (below a p + p) then nearer a p
      else if roundTrips x (below a p) then below a p
      else if roundTrips x (below a p + p) then below a p + p
      else shortestDecimal x a (p div 10))"
  by pat_completeness auto
termination
  by (relation "measure (\<lambda>(x, a, p). p)") auto

declare shortestDecimal.simps [simp del]

text \<open>
  The digits of \<open>v\<close> without the zeros that end them, a point after the first when there are
  more, and the exponent: \<open>1e+21\<close>, \<open>1.5e+21\<close>.
\<close>

definition exponentDigits :: "nat \<Rightarrow> string" where
  "exponentDigits v =
     (let m = digitsOf v;
          s = rev (dropWhile (\<lambda>c. c = CHR ''0'') (rev m))
      in (if length s = 1 then s else hd s # ''.'' @ tl s)
         @ ''e+'' @ toString (int (length m) - 1))"

definition exponentForm :: "real \<Rightarrow> string" where
  "exponentForm x =
     exponentDigits
       (shortestDecimal x (nat \<lfloor>x\<rfloor>) (10 ^ (length (digitsOf (nat \<lfloor>x\<rfloor>)) - 1)))"

text \<open>
  \<open>x.toFixed(2)\<close>. A number that is not finite gives its name. Otherwise the sign, and then,
  below \<open>10^21\<close>, the integer \<open>n\<close> nearest to \<open>100 * |x|\<close> for the exact value of the double
  (the larger one of two), written with at least three digits and a point before the last
  two.
\<close>

definition toFixed2 :: "number \<Rightarrow> string" where
  "toFixed2 v =
     (case theNumber v of
        NaN \<Rightarrow> ''NaN''
      | PosInfinity \<Rightarrow> ''Infinity''
      | NegInfinity \<Rightarrow> ''-Infinity''
      | Num x \<Rightarrow>
          (let s = (if x < 0 then ''-'' else '''');
               x = \<bar>x\<bar>
           in if 10 ^ 21 \<le> x then s @ exponentForm x
              else
                (let n = nat \<lfloor>x * 100 + 1 / 2\<rfloor>;
                     m = digitsOf n;
                     m' = replicate (3 - length m) CHR ''0'' @ m;
                     k = length m'
                 in s @ take (k - 2) m' @ ''.'' @ drop (k - 2) m')))"

subsection \<open>Dates\<close>

text \<open>
  A \<open>Date\<close> holds a time value: milliseconds since 1970-01-01T00:00:00Z, or \<open>NaN\<close> for an
  invalid date (\<open>None\<close>). The functions below are the day and year arithmetic of the
  ECMAScript specification, on which \<open>getFullYear\<close>, \<open>getMonth\<close> and \<open>getDate\<close> are defined.
\<close>

definition msPerDay :: int where
  "msPerDay = 86400000"

definition Day :: "int \<Rightarrow> int" where
  "Day t = t div msPerDay"

definition DaysInYear :: "int \<Rightarrow> int" where
  "DaysInYear y =
     (if y mod 4 \<noteq> 0 then 365
      else if y mod 100 \<noteq> 0 then 366
      else if y mod 400 \<noteq> 0 then 365
      else 366)"

definition DayFromYear :: "int \<Rightarrow> int" where
  "DayFromYear y =
     365 * (y - 1970) + (y - 1969) div 4 - (y - 1901) div 100 + (y - 1601) div 400"

lemma div_succ:
  fixes a k :: int
  assumes "1 < k"
  shows "(a + 1) div k = a div k + (if (a + 1) mod k = 0 then 1 else 0)"
proof -
  define q where "q = a div k"
  define r where "r = a mod k"
  have r: "0 \<le> r" "r < k"
    using assms by (simp_all add: r_def)
  have e: "a + 1 = k * q + (r + 1)"
    by (simp add: q_def r_def)
  have k0: "k \<noteq> 0"
    using assms by simp
  show ?thesis
  proof (cases "r + 1 = k")
    case True
    then have "a + 1 = k * (q + 1)"
      using e by (simp add: algebra_simps)
    then show ?thesis
      using k0 by (simp add: q_def)
  next
    case False
    then have lt: "r + 1 < k"
      using r by linarith
    have "(k * q + (r + 1)) div k = q + (r + 1) div k"
      using k0 by (rule div_mult_self4)
    also have "(r + 1) div k = 0"
      using lt r by simp
    finally have "(k * q + (r + 1)) div k = q"
      by simp
    then have d: "(a + 1) div k = q"
      by (simp only: e)
    have "(k * q + (r + 1)) mod k = (r + 1) mod k"
      by (rule mod_mult_self4)
    also have "\<dots> = r + 1"
      using lt r by simp
    finally have "(k * q + (r + 1)) mod k \<noteq> 0"
      using r by simp
    then have "(a + 1) mod k \<noteq> 0"
      using e by metis
    then show ?thesis
      using d by (simp add: q_def)
  qed
qed

lemma mod_shift:
  fixes a k :: int
  shows "(a - k * c) mod k = a mod k"
  using mod_mult_self2 [of a k "- c"] by simp

lemma DayFromYear_step4: "((y::int) + 1 - 1969) div 4 = (y - 1969) div 4 + (if y mod 4 = 0 then 1 else 0)"
proof -
  have "(y - 1969 + 1) mod 4 = (y - 4 * 492) mod 4"
    by simp
  also have "\<dots> = y mod 4"
    by (rule mod_shift)
  finally have "(y - 1969 + 1) mod 4 = y mod 4" .
  moreover have "y + 1 - 1969 = y - 1969 + 1"
    by simp
  ultimately show ?thesis
    using div_succ [of 4 "y - 1969"] by simp
qed

lemma DayFromYear_step100: "((y::int) + 1 - 1901) div 100 = (y - 1901) div 100 + (if y mod 100 = 0 then 1 else 0)"
proof -
  have "(y - 1901 + 1) mod 100 = (y - 100 * 19) mod 100"
    by simp
  also have "\<dots> = y mod 100"
    by (rule mod_shift)
  finally have "(y - 1901 + 1) mod 100 = y mod 100" .
  moreover have "y + 1 - 1901 = y - 1901 + 1"
    by simp
  ultimately show ?thesis
    using div_succ [of 100 "y - 1901"] by simp
qed

lemma DayFromYear_step400: "((y::int) + 1 - 1601) div 400 = (y - 1601) div 400 + (if y mod 400 = 0 then 1 else 0)"
proof -
  have "(y - 1601 + 1) mod 400 = (y - 400 * 4) mod 400"
    by simp
  also have "\<dots> = y mod 400"
    by (rule mod_shift)
  finally have "(y - 1601 + 1) mod 400 = y mod 400" .
  moreover have "y + 1 - 1601 = y - 1601 + 1"
    by simp
  ultimately show ?thesis
    using div_succ [of 400 "y - 1601"] by simp
qed

lemma mod_100_4:
  fixes y :: int
  assumes "y mod 100 = 0"
  shows "y mod 4 = 0"
proof -
  have "(100::int) dvd y"
    using assms by (simp only: dvd_eq_mod_eq_0)
  moreover have "(4::int) dvd 100"
    by simp
  ultimately have "(4::int) dvd y"
    using dvd_trans [of 4 100 y] by blast
  then show ?thesis
    by (simp only: dvd_eq_mod_eq_0)
qed

lemma DayFromYear_step: "DayFromYear (y + 1) = DayFromYear y + DaysInYear y"
  unfolding DayFromYear_def DaysInYear_def DayFromYear_step4 DayFromYear_step100 DayFromYear_step400
  using mod_100_4 [of y] by auto

lemma DaysInYear_cases: "DaysInYear y = 365 \<or> DaysInYear y = 366"
  unfolding DaysInYear_def by simp

text \<open>
  The search for the largest year that starts on or before day \<open>d\<close>, upwards from a year
  \<open>y\<close> that does.
\<close>

function yearUpFrom :: "int \<Rightarrow> int \<Rightarrow> int" where
  "yearUpFrom y d = (if DayFromYear (y + 1) \<le> d then yearUpFrom (y + 1) d else y)"
  by pat_completeness auto
termination
proof (relation "measure (\<lambda>(y, d). nat (d - DayFromYear y))")
  show "wf (measure (\<lambda>(y, d). nat (d - DayFromYear y)))"
    by simp
next
  fix y d :: int
  assume "DayFromYear (y + 1) \<le> d"
  moreover have "DayFromYear y < DayFromYear (y + 1)"
    using DaysInYear_cases [of y] by (auto simp: DayFromYear_step)
  ultimately show "((y + 1, d), (y, d)) \<in> measure (\<lambda>(y, d). nat (d - DayFromYear y))"
    by simp
qed

declare yearUpFrom.simps [simp del]

text \<open>\<open>YearFromTime\<close>, as a function of the day number.\<close>

definition YearFromDay :: "int \<Rightarrow> int" where
  "YearFromDay d =
     yearUpFrom (if 0 \<le> d then 1970 + d div 366 else 1970 + d div 365) d"

definition YearFromTime :: "int \<Rightarrow> int" where
  "YearFromTime t = YearFromDay (Day t)"

definition InLeapYear :: "int \<Rightarrow> int" where
  "InLeapYear t = (if DaysInYear (YearFromTime t) = 366 then 1 else 0)"

definition DayWithinYear :: "int \<Rightarrow> int" where
  "DayWithinYear t = Day t - DayFromYear (YearFromTime t)"

definition MonthFromTime :: "int \<Rightarrow> int" where
  "MonthFromTime t =
     (let d = DayWithinYear t; L = InLeapYear t
      in if d < 31 then 0
         else if d < 59 + L then 1
         else if d < 90 + L then 2
         else if d < 120 + L then 3
         else if d < 151 + L then 4
         else if d < 181 + L then 5
         else if d < 212 + L then 6
         else if d < 243 + L then 7
         else if d < 273 + L then 8
         else if d < 304 + L then 9
         else if d < 334 + L then 10
         else 11)"

definition DateFromTime :: "int \<Rightarrow> int" where
  "DateFromTime t =
     (let d = DayWithinYear t; L = InLeapYear t; m = MonthFromTime t
      in if m = 0 then d + 1
         else if m = 1 then d - 30
         else if m = 2 then d - 58 - L
         else if m = 3 then d - 89 - L
         else if m = 4 then d - 119 - L
         else if m = 5 then d - 150 - L
         else if m = 6 then d - 180 - L
         else if m = 7 then d - 211 - L
         else if m = 8 then d - 242 - L
         else if m = 9 then d - 272 - L
         else if m = 10 then d - 303 - L
         else d - 333 - L)"

text \<open>
  The runtime: its local time zone adjustment in milliseconds, the time value its clock
  shows, and the engine's own parser for date strings that are not in the ECMAScript
  date-time format, which the language leaves to the implementation. The adjustment is
  \<open>LocalTZA(t, isUTC)\<close> of the ECMAScript specification: the offset of local time from UTC
  at the time value \<open>t\<close>, which is a UTC time when \<open>isUTC\<close> holds and a local time
  otherwise; with daylight saving it changes with \<open>t\<close>.
\<close>

record runtime =
  localTZA :: "int \<Rightarrow> bool \<Rightarrow> int"
  clock :: int
  legacyParse :: "string \<Rightarrow> int option"

definition LocalTime :: "runtime \<Rightarrow> int \<Rightarrow> int" where
  "LocalTime rt t = t + localTZA rt t True"

definition UTC :: "runtime \<Rightarrow> int \<Rightarrow> int" where
  "UTC rt t = t - localTZA rt t False"

definition getFullYear :: "runtime \<Rightarrow> int \<Rightarrow> int" where
  "getFullYear rt t = YearFromTime (LocalTime rt t)"

definition getMonth :: "runtime \<Rightarrow> int \<Rightarrow> int" where
  "getMonth rt t = MonthFromTime (LocalTime rt t)"

definition getDate :: "runtime \<Rightarrow> int \<Rightarrow> int" where
  "getDate rt t = DateFromTime (LocalTime rt t)"

subsection \<open>Parsing a date string\<close>

text \<open>
  \<open>new Date(dateString)\<close> parses the ECMAScript date-time string format:
  \<open>YYYY\<close>, \<open>YYYY-MM\<close> or \<open>YYYY-MM-DD\<close>, alone or followed by \<open>T\<close> and \<open>HH:mm\<close>,
  \<open>HH:mm:ss\<close> or \<open>HH:mm:ss.sss\<close>, and then by nothing, \<open>Z\<close> or \<open>+HH:mm\<close> / \<open>-HH:mm\<close>.
  A date alone is read as UTC; a date and time without an offset is read as local time.
  Days up to 31 are accepted in every month and carried into the next one, as V8 does.
  Years with a sign and six digits are left to \<open>legacyParse\<close>.
\<close>

definition digitVal :: "char \<Rightarrow> int option" where
  "digitVal c = map_of (zip ''0123456789'' [0, 1, 2, 3, 4, 5, 6, 7, 8, 9]) c"

definition twoDigits :: "string \<Rightarrow> (int \<times> string) option" where
  "twoDigits s =
     (case s of
        a # b # r \<Rightarrow>
          (case (digitVal a, digitVal b) of
             (Some x, Some y) \<Rightarrow> Some (10 * x + y, r)
           | _ \<Rightarrow> None)
      | _ \<Rightarrow> None)"

definition threeDigits :: "string \<Rightarrow> (int \<times> string) option" where
  "threeDigits s =
     (case s of
        a # r \<Rightarrow>
          (case (digitVal a, twoDigits r) of
             (Some x, Some (y, r')) \<Rightarrow> Some (100 * x + y, r')
           | _ \<Rightarrow> None)
      | _ \<Rightarrow> None)"

definition fourDigits :: "string \<Rightarrow> (int \<times> string) option" where
  "fourDigits s =
     (case twoDigits s of
        Some (x, r) \<Rightarrow>
          (case twoDigits r of
             Some (y, r') \<Rightarrow> Some (100 * x + y, r')
           | None \<Rightarrow> None)
      | None \<Rightarrow> None)"

definition expect :: "char \<Rightarrow> string \<Rightarrow> string option" where
  "expect c s = (case s of x # r \<Rightarrow> (if x = c then Some r else None) | [] \<Rightarrow> None)"

text \<open>The date part: year, month (1 to 12) and day as written, and what follows them.\<close>

definition parseDatePart :: "string \<Rightarrow> (int \<times> int \<times> int \<times> string) option" where
  "parseDatePart s =
     (case fourDigits s of
        None \<Rightarrow> None
      | Some (y, r) \<Rightarrow>
          (case expect CHR ''-'' r of
             None \<Rightarrow> Some (y, 1, 1, r)
           | Some r1 \<Rightarrow>
               (case twoDigits r1 of
                  None \<Rightarrow> None
                | Some (m, r2) \<Rightarrow>
                    (case expect CHR ''-'' r2 of
                       None \<Rightarrow> Some (y, m, 1, r2)
                     | Some r3 \<Rightarrow>
                         (case twoDigits r3 of
                            None \<Rightarrow> None
                          | Some (d, r4) \<Rightarrow> Some (y, m, d, r4))))))"

text \<open>The time part after \<open>T\<close>: hours, minutes, seconds, milliseconds, and what follows.\<close>

definition parseTimePart :: "string \<Rightarrow> (int \<times> int \<times> int \<times> int \<times> string) option" where
  "parseTimePart s =
     (case twoDigits s of
        None \<Rightarrow> None
      | Some (h, r1) \<Rightarrow>
          (case expect CHR '':'' r1 of
             None \<Rightarrow> None
           | Some r2 \<Rightarrow>
               (case twoDigits r2 of
                  None \<Rightarrow> None
                | Some (mi, r3) \<Rightarrow>
                    (case expect CHR '':'' r3 of
                       None \<Rightarrow> Some (h, mi, 0, 0, r3)
                     | Some r4 \<Rightarrow>
                         (case twoDigits r4 of
                            None \<Rightarrow> None
                          | Some (sec, r5) \<Rightarrow>
                              (case expect CHR ''.'' r5 of
                                 None \<Rightarrow> Some (h, mi, sec, 0, r5)
                               | Some r6 \<Rightarrow>
                                   (case threeDigits r6 of
                                      None \<Rightarrow> None
                                    | Some (ms, r7) \<Rightarrow> Some (h, mi, sec, ms, r7))))))))"

text \<open>The offset from UTC that ends a date and time, in milliseconds, when one is written.\<close>

datatype utc_offset = LocalZone | Offset int

definition parseOffset :: "string \<Rightarrow> utc_offset option" where
  "parseOffset s =
     (if s = [] then Some LocalZone
      else if s = ''Z'' then Some (Offset 0)
      else if hd s = CHR ''+'' \<or> hd s = CHR ''-'' then
        (case twoDigits (tl s) of
           None \<Rightarrow> None
         | Some (h, r1) \<Rightarrow>
             (case expect CHR '':'' r1 of
                None \<Rightarrow> None
              | Some r2 \<Rightarrow>
                  (case twoDigits r2 of
                     None \<Rightarrow> None
                   | Some (mi, r3) \<Rightarrow>
                       (if r3 = [] \<and> h \<le> 23 \<and> mi \<le> 59
                        then Some (Offset ((if hd s = CHR ''+'' then 1 else - 1)
                                           * (h * 3600000 + mi * 60000)))
                        else None))))
      else None)"

text \<open>The days of the year before month \<open>m\<close> (0 to 11) of year \<open>y\<close>.\<close>

definition DaysBeforeMonth :: "int \<Rightarrow> int \<Rightarrow> int" where
  "DaysBeforeMonth y m =
     (let L = (if DaysInYear y = 366 then 1 else 0)
      in [0, 31, 59 + L, 90 + L, 120 + L, 151 + L, 181 + L, 212 + L, 243 + L, 273 + L,
          304 + L, 334 + L] ! nat m)"

definition MakeDay :: "int \<Rightarrow> int \<Rightarrow> int \<Rightarrow> int" where
  "MakeDay y m d = DayFromYear y + DaysBeforeMonth y m + d - 1"

definition MakeTime :: "int \<Rightarrow> int \<Rightarrow> int \<Rightarrow> int \<Rightarrow> int" where
  "MakeTime h mi sec ms = h * 3600000 + mi * 60000 + sec * 1000 + ms"

definition MakeDate :: "int \<Rightarrow> int \<Rightarrow> int" where
  "MakeDate day time = day * msPerDay + time"

definition parseISO :: "runtime \<Rightarrow> string \<Rightarrow> int option" where
  "parseISO rt s =
     (case parseDatePart s of
        None \<Rightarrow> None
      | Some (y, m, d, r) \<Rightarrow>
          (if \<not> (1 \<le> m \<and> m \<le> 12 \<and> 1 \<le> d \<and> d \<le> 31) then None
           else if r = [] then Some (MakeDate (MakeDay y (m - 1) d) 0)
           else
             (case expect CHR ''T'' r of
                None \<Rightarrow> None
              | Some r1 \<Rightarrow>
                  (case parseTimePart r1 of
                     None \<Rightarrow> None
                   | Some (h, mi, sec, ms, r2) \<Rightarrow>
                       (if \<not> (mi \<le> 59 \<and> sec \<le> 59
                               \<and> (h \<le> 23 \<or> (h = 24 \<and> mi = 0 \<and> sec = 0 \<and> ms = 0)))
                        then None
                        else
                          (case parseOffset r2 of
                             None \<Rightarrow> None
                           | Some LocalZone \<Rightarrow>
                               Some (UTC rt (MakeDate (MakeDay y (m - 1) d)
                                               (MakeTime h mi sec ms)))
                           | Some (Offset off) \<Rightarrow>
                               Some (MakeDate (MakeDay y (m - 1) d) (MakeTime h mi sec ms)
                                     - off)))))))"

text \<open>
  \<open>new Date(dateString)\<close>: the time value of the string, \<open>None\<close> for an invalid date.
\<close>

definition Date_parse :: "runtime \<Rightarrow> string \<Rightarrow> int option" where
  "Date_parse rt s = (case parseISO rt s of Some t \<Rightarrow> Some t | None \<Rightarrow> legacyParse rt s)"

subsection \<open>\<open>formatDate\<close>\<close>

definition monthNames :: "string list" where
  "monthNames =
     [''January'', ''February'', ''March'', ''April'', ''May'', ''June'',
      ''July'', ''August'', ''September'', ''October'', ''November'', ''December'']"

text \<open>
  \<open>monthNames[month]\<close> in a template literal: an index outside the array gives
  \<open>undefined\<close>.
\<close>

definition monthName :: "int \<Rightarrow> string" where
  "monthName month =
     (if 0 \<le> month \<and> month < 12 then monthNames ! nat month else ''undefined'')"

text \<open>
  \<open>formatDate\<close> of \<^verbatim>\<open>app/utils/format-utils.ts\<close>. The getters of an invalid date return
  \<open>NaN\<close>, so the template literal gives \<open>undefined NaN, NaN\<close> for it.
\<close>

definition formatDate :: "runtime \<Rightarrow> string \<Rightarrow> string" where
  "formatDate rt dateString =
     (case Date_parse rt dateString of
        None \<Rightarrow> ''undefined NaN, NaN''
      | Some date \<Rightarrow>
          (let month = getMonth rt date;
               day = getDate rt date;
               year = getFullYear rt date
           in monthName month @ '' '' @ toString day @ '', '' @ toString year))"

subsection \<open>Evaluation on numerals\<close>

lemma digitsOf_0 [simp]: "digitsOf 0 = ''0''"
  by (simp add: digitsOf.simps [of 0])

lemma digitsOf_1 [simp]: "digitsOf (Suc 0) = ''1''"
  by (simp add: digitsOf.simps [of "Suc 0"])

lemma digitsOf_numeral [simp]:
  "digitsOf (numeral k) =
     (if (numeral k :: nat) < 10 then [''0123456789'' ! numeral k]
      else digitsOf (numeral k div 10) @ [''0123456789'' ! (numeral k mod 10)])"
  by (rule digitsOf.simps)

subsection \<open>The invoice record and the page\<close>

text \<open>
  Modelled from the spec: the types \<open>LineItem\<close> and \<open>InvoiceData\<close> of
  \<^verbatim>\<open>app/types/invoice-types\<close>, which is not among the sources. The fields are the ones the
  two functions read (\<open>notes'\<close> is the field \<open>notes\<close>); \<open>notes\<close>, \<open>totalAmount\<close> and \<open>status\<close> may be \<open>undefined\<close> (\<open>None\<close>),
  as the functions test them.
\<close>

record LineItem =
  description :: string
  quantity :: int
  unitPrice :: number

record InvoiceData =
  invoiceNumber :: string
  invoiceDate :: string
  dueDate :: string
  companyName :: string
  companyAddress :: string
  companyEmail :: string
  companyPhone :: string
  clientName :: string
  clientAddress :: string
  clientEmail :: string
  notes' :: "string option"
  totalAmount :: "number option"
  lineItems :: "LineItem list"
  status :: "string option"

datatype font = Helvetica | HelveticaBold

datatype color = rgb real real real

text \<open>
  The drawing calls of the PDF page, with their options in this order:
  \<open>drawText text x y size font color\<close>,
  \<open>drawRectangle x y width height color borderColor borderWidth\<close>,
  \<open>drawLine start end thickness color\<close>.
\<close>

datatype primitive =
    drawText string real real real font color
  | drawRectangle real real real real color "color option" "real option"
  | drawLine "real \<times> real" "real \<times> real" real color

text \<open>
  The body of \<open>data.lineItems.forEach((item, index) => ...)\<close>, the same in both functions:
  the loop threads the page and \<open>yPosition\<close>.
\<close>

fun drawLineItems ::
  "real \<Rightarrow> real \<Rightarrow> real list \<Rightarrow> real \<Rightarrow> primitive list \<times> real \<Rightarrow> nat \<Rightarrow> LineItem list
    \<Rightarrow> primitive list \<times> real" where
  "drawLineItems tableLeft tableRight columnWidths normalFontSize (page, yPosition) index [] =
     (page, yPosition)"
| "drawLineItems tableLeft tableRight columnWidths normalFontSize (page, yPosition) index
     (item # items) =
     (let amount = numTimes (ofInt (quantity item)) (unitPrice item);
          page = (if index mod 2 = 0
                  then page @ [drawRectangle tableLeft (yPosition - 15 + 5)
                                 (tableRight - tableLeft) 25 (rgb 0.97 0.97 0.97) None None]
                  else page);
          page = page @
            [drawText (description item) (tableLeft + 10) yPosition
               normalFontSize Helvetica (rgb 0 0 0),
             drawText (toString (quantity item)) (tableLeft + columnWidths ! 0 + 10) yPosition
               normalFontSize Helvetica (rgb 0 0 0),
             drawText (''$'' @ toFixed2 (unitPrice item))
               (tableLeft + columnWidths ! 0 + columnWidths ! 1 + 10) yPosition
               normalFontSize Helvetica (rgb 0 0 0),
             drawText (''$'' @ toFixed2 amount)
               (tableLeft + columnWidths ! 0 + columnWidths ! 1 + columnWidths ! 2 + 10) yPosition
               normalFontSize Helvetica (rgb 0 0 0)]
      in drawLineItems tableLeft tableRight columnWidths normalFontSize
           (page, yPosition - 25) (index + 1) items)"

text \<open>
  \<open>lines.forEach((line, index) => page.drawText(line, {x: 50, y: baseY - index * 15, ...}))\<close>,
  the loop over the lines of an address.
\<close>

definition drawAddressLines :: "real \<Rightarrow> real \<Rightarrow> string list \<Rightarrow> primitive list" where
  "drawAddressLines baseY normalFontSize lines =
     map (\<lambda>(index, line).
            drawText line 50 (baseY - real index * 15) normalFontSize Helvetica (rgb 0 0 0))
         (enumerate 0 lines)"

subsection \<open>\<open>generateInvoice\<close>, the layout with the status badge\<close>

text \<open>
  The function returns the record as it leaves it and the page it has drawn.
\<close>

definition generateInvoice :: "runtime \<Rightarrow> InvoiceData \<Rightarrow> InvoiceData \<times> primitive list" where
  "generateInvoice rt data0 =
     (let data =
            (if totalAmount data0 = None
             then data0\<lparr>totalAmount :=
                    Some (foldl (\<lambda>sum item.
                                   numPlus sum (numTimes (ofInt (quantity item)) (unitPrice item)))
                            (Num 0) (lineItems data0))\<rparr>
             else data0);
          width = 595.28;
          height = 841.89;
          titleFontSize = 24;
          headerFontSize = 12;
          normalFontSize = 10;
          page =
            [drawRectangle 0 (height - 80) width 80 (rgb 0.2 0.2 0.2) None None,
             drawText ''INVOICE'' 50 (height - 50) titleFontSize HelveticaBold (rgb 1 1 1),
             drawText (companyName data) 50 (height - 90) headerFontSize HelveticaBold (rgb 0 0 0)];
          companyAddressLines = split_lines (companyAddress data);
          page = page @ drawAddressLines (height - 110) normalFontSize companyAddressLines;
          page = page @
            [drawText (''Email: '' @ companyEmail data) 50
               (height - 110 - real (length companyAddressLines) * 15)
               normalFontSize Helvetica (rgb 0 0 0),
             drawText (''Phone: '' @ companyPhone data) 50
               (height - 125 - real (length companyAddressLines) * 15)
               normalFontSize Helvetica (rgb 0 0 0),
             drawText (''Invoice #: '' @ invoiceNumber data) (width - 200) (height - 90)
               normalFontSize Helvetica (rgb 0 0 0),
             drawText (''Date: '' @ formatDate rt (invoiceDate data)) (width - 200) (height - 105)
               normalFontSize Helvetica (rgb 0 0 0),
             drawText (''Due Date: '' @ formatDate rt (dueDate data)) (width - 200) (height - 120)
               normalFontSize Helvetica (rgb 0 0 0)];
          status =
            (case status data of
               None \<Rightarrow> ''UNPAID''
             | Some s \<Rightarrow> (if toUpperCase s = [] then ''UNPAID'' else toUpperCase s));
          statusColor = (if status = ''PAID'' then rgb 0.2 0.7 0.2 else rgb 0.8 0.2 0.2);
          page = page @
            [drawText ''Status:'' (width - 200) (height - 135)
               normalFontSize Helvetica (rgb 0 0 0),
             drawRectangle (width - 150) (height - 145) 70 18 statusColor
               (Some (rgb 0.8 0.8 0.8)) (Some 1),
             drawText status (width - 145) (height - 135)
               normalFontSize HelveticaBold (rgb 1 1 1),
             drawLine (50, height - 150) (width - 50, height - 150) 2 (rgb 0.8 0.8 0.8),
             drawText ''BILL TO:'' 50 (height - 180) headerFontSize HelveticaBold (rgb 0.4 0.4 0.4),
             drawText (clientName data) 50 (height - 200) normalFontSize HelveticaBold (rgb 0 0 0)];
          clientAddressLines = split_lines (clientAddress data);
          page = page @ drawAddressLines (height - 215) normalFontSize clientAddressLines;
          page = page @
            [drawText (''Email: '' @ clientEmail data) 50
               (height - 215 - real (length clientAddressLines) * 15)
               normalFontSize Helvetica (rgb 0 0 0)];
          tableTop = height - 280;
          tableLeft = 50;
          tableRight = width - 50;
          columnWidths = [280, 70, 80, 90];
          page = page @
            [drawRectangle tableLeft (tableTop - 25) (tableRight - tableLeft) 25 (rgb 0.2 0.2 0.2)
               (Some (rgb 0.1 0.1 0.1)) (Some 1),
             drawText ''Description'' (tableLeft + 10) (tableTop - 15)
               headerFontSize HelveticaBold (rgb 1 1 1),
             drawText ''Quantity'' (tableLeft + columnWidths ! 0 + 10) (tableTop - 15)
               headerFontSize HelveticaBold (rgb 1 1 1),
             drawText ''Unit Price'' (tableLeft + columnWidths ! 0 + columnWidths ! 1 + 10)
               (tableTop - 15) headerFontSize HelveticaBold (rgb 1 1 1),
             drawText ''Amount''
               (tableLeft + columnWidths ! 0 + columnWidths ! 1 + columnWidths ! 2 + 10)
               (tableTop - 15) headerFontSize HelveticaBold (rgb 1 1 1)];
          yPosition = tableTop - 45;
          (page, yPosition) =
            drawLineItems tableLeft tableRight columnWidths normalFontSize (page, yPosition) 0
              (lineItems data);
          yPosition = yPosition - 5;
          subtotal = (case totalAmount data of None \<Rightarrow> Num 0 | Some v \<Rightarrow> v);
          taxRate = Num 0.05;
          taxAmount = numTimes subtotal taxRate;
          grandTotal = numPlus subtotal taxAmount;
          page = page @
            [drawText ''Subtotal:'' (tableLeft + columnWidths ! 0 + columnWidths ! 1 + 10) yPosition
               normalFontSize HelveticaBold (rgb 0.2 0.2 0.2),
             drawText (''$'' @ toFixed2 subtotal)
               (tableLeft + columnWidths ! 0 + columnWidths ! 1 + columnWidths ! 2 + 10) yPosition
               normalFontSize Helvetica (rgb 0.2 0.2 0.2)];
          yPosition = yPosition - 20;
          page = page @
            [drawText ''Tax (5%):'' (tableLeft + columnWidths ! 0 + columnWidths ! 1 + 10) yPosition
               normalFontSize HelveticaBold (rgb 0.2 0.2 0.2),
             drawText (''$'' @ toFixed2 taxAmount)
               (tableLeft + columnWidths ! 0 + columnWidths ! 1 + columnWidths ! 2 + 10) yPosition
               normalFontSize Helvetica (rgb 0.2 0.2 0.2)];
          yPosition = yPosition - 20;
          page = page @
            [drawRectangle (tableLeft + columnWidths ! 0 + columnWidths ! 1) (yPosition - 15 + 2)
               (tableRight - (tableLeft + columnWidths ! 0 + columnWidths ! 1)) 30
               (rgb 0.2 0.2 0.2) None None,
             drawText ''TOTAL:'' (tableLeft + columnWidths ! 0 + columnWidths ! 1 + 10) yPosition
               headerFontSize HelveticaBold (rgb 1 1 1),
             drawText (''$'' @ toFixed2 grandTotal)
               (tableLeft + columnWidths ! 0 + columnWidths ! 1 + columnWidths ! 2 + 10) yPosition
               headerFontSize HelveticaBold (rgb 1 1 1)];
          yPosition = yPosition - 30;
          yPosition = yPosition - 20;
          page = page @
            [drawText ''PAYMENT INFORMATION'' tableLeft yPosition
               headerFontSize HelveticaBold (rgb 0.2 0.2 0.2)];
          yPosition = yPosition - 20;
          page = page @
            [drawText ''Please make payment via bank transfer to:'' (tableLeft + 10) yPosition
               normalFontSize Helvetica (rgb 0 0 0)];
          yPosition = yPosition - 20;
          page = page @
            [drawText ''Bank Name:'' (tableLeft + 10) yPosition
               normalFontSize HelveticaBold (rgb 0 0 0),
             drawText ''International Bank'' (tableLeft + 100) yPosition
               normalFontSize Helvetica (rgb 0 0 0)];
          yPosition = yPosition - 15;
          page = page @
            [drawText ''Account Name:'' (tableLeft + 10) yPosition
               normalFontSize HelveticaBold (rgb 0 0 0),
             drawText (companyName data) (tableLeft + 100) yPosition
               normalFontSize Helvetica (rgb 0 0 0)];
          yPosition = yPosition - 15;
          page = page @
            [drawText ''Account Number:'' (tableLeft + 10) yPosition
               normalFontSize HelveticaBold (rgb 0 0 0),
             drawText ''1234567890'' (tableLeft + 100) yPosition
               normalFontSize Helvetica (rgb 0 0 0)];
          yPosition = yPosition - 30;
          footerY = 50;
          page = page @
            [drawLine (50, footerY + 30) (width - 50, footerY + 30) 1 (rgb 0.8 0.8 0.8),
             drawText ''Thank you for your business!'' (width / 2 - 80) (footerY + 15)
               normalFontSize HelveticaBold (rgb 0.4 0.4 0.4)];
          date = clock rt;
          currentDate =
            monthName (getMonth rt date) @ '' '' @ toString (getDate rt date) @ '', ''
            @ toString (getFullYear rt date);
          page = page @
            [drawText (''Invoice generated on '' @ currentDate) (width / 2 - 100) footerY
               8 Helvetica (rgb 0.4 0.4 0.4),
             drawText ''Payment terms: Due within 30 days of issue'' (width / 2 - 120)
               (footerY - 15) 8 Helvetica (rgb 0.4 0.4 0.4)]
      in (data, page))"

subsection \<open>\<open>generateInvoice\<close> of \<^verbatim>\<open>app/actions/invoice-actions.ts\<close>, the layout with the notes\<close>

text \<open>\<open>notesLines.forEach((line) => ...)\<close>: the loop threads the page and \<open>yPosition\<close>.\<close>

fun drawNotesLines ::
  "real \<Rightarrow> real \<Rightarrow> primitive list \<times> real \<Rightarrow> string list \<Rightarrow> primitive list \<times> real" where
  "drawNotesLines tableLeft normalFontSize (page, yPosition) [] = (page, yPosition)"
| "drawNotesLines tableLeft normalFontSize (page, yPosition) (line # lines) =
     drawNotesLines tableLeft normalFontSize
       (page @ [drawText line (tableLeft + 10) yPosition normalFontSize Helvetica (rgb 0 0 0)],
        yPosition - 15)
       lines"

definition generateInvoice_actions :: "runtime \<Rightarrow> InvoiceData \<Rightarrow> primitive list" where
  "generateInvoice_actions rt data =
     (let width = 595.28;
          height = 841.89;
          titleFontSize = 24;
          headerFontSize = 12;
          normalFontSize = 10;
          page =
            [drawText ''INVOICE'' 50 (height - 50) titleFontSize HelveticaBold (rgb 0.2 0.2 0.2),
             drawText (companyName data) 50 (height - 90) headerFontSize HelveticaBold (rgb 0 0 0)];
          companyAddressLines = split_lines (companyAddress data);
          page = page @ drawAddressLines (height - 110) normalFontSize companyAddressLines;
          page = page @
            [drawText (''Email: '' @ companyEmail data) 50
               (height - 110 - real (length companyAddressLines) * 15)
               normalFontSize Helvetica (rgb 0 0 0),
             drawText (''Phone: '' @ companyPhone data) 50
               (height - 125 - real (length companyAddressLines) * 15)
               normalFontSize Helvetica (rgb 0 0 0),
             drawText (''Invoice #: '' @ invoiceNumber data) (width - 200) (height - 90)
               normalFontSize Helvetica (rgb 0 0 0),
             drawText (''Date: '' @ formatDate rt (invoiceDate data)) (width - 200) (height - 105)
               normalFontSize Helvetica (rgb 0 0 0),
             drawText (''Due Date: '' @ formatDate rt (dueDate data)) (width - 200) (height - 120)
               normalFontSize Helvetica (rgb 0 0 0),
             drawLine (50, height - 150) (width - 50, height - 150) 2 (rgb 0.8 0.8 0.8),
             drawText ''BILL TO:'' 50 (height - 180) headerFontSize HelveticaBold (rgb 0.4 0.4 0.4),
             drawText (clientName data) 50 (height - 200) normalFontSize HelveticaBold (rgb 0 0 0)];
          clientAddressLines = split_lines (clientAddress data);
          page = page @ drawAddressLines (height - 215) normalFontSize clientAddressLines;
          page = page @
            [drawText (''Email: '' @ clientEmail data) 50
               (height - 215 - real (length clientAddressLines) * 15)
               normalFontSize Helvetica (rgb 0 0 0)];
          tableTop = height - 280;
          tableLeft = 50;
          tableRight = width - 50;
          columnWidths = [280, 70, 80, 90];
          page = page @
            [drawRectangle tableLeft (tableTop - 25) (tableRight - tableLeft) 25 (rgb 0.9 0.9 0.9)
               (Some (rgb 0.8 0.8 0.8)) (Some 1),
             drawText ''Description'' (tableLeft + 10) (tableTop - 15)
               headerFontSize HelveticaBold (rgb 0.2 0.2 0.2),
             drawText ''Quantity'' (tableLeft + columnWidths ! 0 + 10) (tableTop - 15)
               headerFontSize HelveticaBold (rgb 0.2 0.2 0.2),
             drawText ''Unit Price'' (tableLeft + columnWidths ! 0 + columnWidths ! 1 + 10)
               (tableTop - 15) headerFontSize HelveticaBold (rgb 0.2 0.2 0.2),
             drawText ''Amount''
               (tableLeft + columnWidths ! 0 + columnWidths ! 1 + columnWidths ! 2 + 10)
               (tableTop - 15) headerFontSize HelveticaBold (rgb 0.2 0.2 0.2)];
          yPosition = tableTop - 45;
          (page, yPosition) =
            drawLineItems tableLeft tableRight columnWidths normalFontSize (page, yPosition) 0
              (lineItems data);
          yPosition = yPosition - 5;
          page = page @
            [drawRectangle (tableLeft + columnWidths ! 0 + columnWidths ! 1) (yPosition - 15 + 2)
               (tableRight - (tableLeft + columnWidths ! 0 + columnWidths ! 1)) 30
               (rgb 0.95 0.95 0.95) None None,
             drawText ''Total:'' (tableLeft + columnWidths ! 0 + columnWidths ! 1 + 10) yPosition
               headerFontSize HelveticaBold (rgb 0 0 0),
             drawText (''$'' @ toFixed2 (case totalAmount data of None \<Rightarrow> Num 0 | Some v \<Rightarrow> v))
               (tableLeft + columnWidths ! 0 + columnWidths ! 1 + columnWidths ! 2 + 10) yPosition
               headerFontSize HelveticaBold (rgb 0.2 0.2 0.2)];
          yPosition = yPosition - 30;
          (page, yPosition) =
            (case notes' data of
               None \<Rightarrow> (page, yPosition)
             | Some n \<Rightarrow>
                 (if n \<noteq> [] \<and> trim n \<noteq> [] then
                    (let yPosition = yPosition - 20;
                         page = page @
                           [drawText ''NOTES:'' tableLeft yPosition
                              headerFontSize HelveticaBold (rgb 0.4 0.4 0.4)];
                         yPosition = yPosition - 20;
                         notesLines = split_lines n
                     in drawNotesLines tableLeft normalFontSize (page, yPosition) notesLines)
                  else (page, yPosition)));
          page = page @
            [drawText ''Thank you for your business!'' (width / 2 - 80) 50
               normalFontSize Helvetica (rgb 0.4 0.4 0.4)]
      in page)"

section \<open>Properties\<close>

subsection \<open>The arithmetic of doubles\<close>

text \<open>Evaluation of the arithmetic and of \<open>toFixed\<close> on numerals.\<close>

lemmas number_eval =
  numTimes_def numPlus_def numberValue_def nearestDouble_def roundHalfEven_def
  expo.simps pow2_def Let_def

lemmas toFixed2_eval =
  toFixed2_def toString_def exponentForm_def exponentDigits_def shortestDecimal.simps
  roundTrips_def below_def nearer_def

text \<open>
  Powers of two, the exponent of a real, and the error of one rounding: half a unit of the
  last place, which is at most \<open>2^(-53)\<close> of the number, or \<open>2^(-1075)\<close> next to zero.
\<close>

lemma pow2_powr: "pow2 e = 2 powr (of_int e)"
proof (cases "0 \<le> e")
  case True
  then have "2 powr (of_int e) = (2::real) powr (real (nat e))"
    by simp
  also have "\<dots> = 2 ^ nat e"
    by (simp only: powr_realpow zero_less_numeral)
  finally show ?thesis
    using True by (simp add: pow2_def)
next
  case False
  then have "2 powr (of_int e) = (2::real) powr (- real (nat (- e)))"
    by simp
  also have "\<dots> = 1 / 2 powr (real (nat (- e)))"
    by (simp only: powr_minus_divide)
  also have "\<dots> = 1 / 2 ^ nat (- e)"
    by (simp only: powr_realpow zero_less_numeral)
  finally show ?thesis
    using False by (simp add: pow2_def)
qed

lemma pow2_pos [simp]: "0 < pow2 e"
  by (simp add: pow2_powr)

lemma pow2_nonneg [simp]: "0 \<le> pow2 e"
  by (simp add: less_imp_le)

lemma pow2_abs [simp]: "\<bar>pow2 e\<bar> = pow2 e"
  by (simp add: abs_of_pos)

lemma pow2_neq_0 [simp]: "pow2 e \<noteq> 0"
  by (simp add: pow2_powr)

lemma pow2_add: "pow2 (a + b) = pow2 a * pow2 b"
  by (simp add: pow2_powr powr_add)

lemma pow2_less_iff [simp]: "pow2 a < pow2 b \<longleftrightarrow> a < b"
  by (simp add: pow2_powr)

lemma pow2_le_iff [simp]: "pow2 a \<le> pow2 b \<longleftrightarrow> a \<le> b"
  by (simp add: pow2_powr)

lemma pow2_0 [simp]: "pow2 0 = 1"
  by (simp add: pow2_def)

lemma pow2_1 [simp]: "pow2 1 = 2"
  by (simp add: pow2_def)

lemma pow2_Suc: "pow2 (e + 1) = 2 * pow2 e"
  by (simp add: pow2_add)

lemma pow2_pred: "pow2 (e - 1) = pow2 e / 2"
  using pow2_Suc [of "e - 1"] by simp

lemma pow2_53: "pow2 53 * pow2 (e - 52) = pow2 (e + 1)"
proof -
  have "53 + (e - 52) = e + 1"
    by simp
  then show ?thesis
    by (simp only: pow2_add [symmetric])
qed

lemma pow2_nat: "0 \<le> k \<Longrightarrow> pow2 k = of_int (2 ^ nat k)"
  by (simp add: pow2_def)

lemma expo_bounds: "0 < x \<Longrightarrow> pow2 (expo x) \<le> x \<and> x < pow2 (expo x + 1)"
proof (induction x rule: expo.induct)
  case (1 x)
  show ?case
  proof (cases "x < 1")
    case True
    then have e: "expo x = expo (2 * x) - 1"
      using "1.prems" by (simp add: expo.simps [of x])
    have "pow2 (expo (2 * x)) \<le> 2 * x \<and> 2 * x < pow2 (expo (2 * x) + 1)"
      using "1.IH"(1) "1.prems" True by simp
    then show ?thesis
      unfolding e by (simp add: pow2_pred pow2_Suc)
  next
    case False
    show ?thesis
    proof (cases "2 \<le> x")
      case True
      then have e: "expo x = expo (x / 2) + 1"
        using "1.prems" False by (simp add: expo.simps [of x])
      have "pow2 (expo (x / 2)) \<le> x / 2 \<and> x / 2 < pow2 (expo (x / 2) + 1)"
        using "1.IH"(2) "1.prems" False True by simp
      moreover have "pow2 (expo (x / 2) + 1 + 1) = 2 * (2 * pow2 (expo (x / 2)))"
        by (simp only: pow2_Suc)
      moreover have "pow2 (expo (x / 2) + 1) = 2 * pow2 (expo (x / 2))"
        by (simp only: pow2_Suc)
      ultimately show ?thesis
        unfolding e by linarith
    next
      case b: False
      then have "expo x = 0"
        using "1.prems" False by (simp add: expo.simps [of x])
      then show ?thesis
        using False b by simp
    qed
  qed
qed

lemma expo_less: "0 < x \<Longrightarrow> x < pow2 k \<Longrightarrow> expo x < k"
proof -
  assume "0 < x" and "x < pow2 k"
  then have "pow2 (expo x) < pow2 k"
    using expo_bounds [of x] by linarith
  then show ?thesis
    by simp
qed

lemma expo_ge: "0 < x \<Longrightarrow> pow2 k \<le> x \<Longrightarrow> k \<le> expo x"
proof -
  assume "0 < x" and "pow2 k \<le> x"
  then have "pow2 k < pow2 (expo x + 1)"
    using expo_bounds [of x] by linarith
  then show ?thesis
    by simp
qed

lemma expo_pow2: "expo (pow2 k) = k"
proof -
  have "k \<le> expo (pow2 k)"
    by (rule expo_ge) simp_all
  moreover have "expo (pow2 k) < k + 1"
    by (rule expo_less) simp_all
  ultimately show ?thesis
    by simp
qed

lemma roundHalfEven_of_int [simp]: "roundHalfEven (of_int k) = k"
  by (simp add: roundHalfEven_def)

lemma roundHalfEven_error: "\<bar>of_int (roundHalfEven y) - y\<bar> \<le> 1 / 2"
  unfolding roundHalfEven_def Let_def by (auto; linarith)

lemma roundHalfEven_mono_int:
  "y \<le> of_int k \<Longrightarrow> roundHalfEven y \<le> k"
  "of_int k \<le> y \<Longrightarrow> k \<le> roundHalfEven y"
  unfolding roundHalfEven_def Let_def by (auto; linarith)+


lemma roundHalfEven_0 [simp]: "roundHalfEven 0 = 0"
  using roundHalfEven_of_int [of 0] by simp

lemma nearestDouble_0 [simp]: "nearestDouble 0 = 0"
  by (simp add: nearestDouble_def Let_def)

lemma nearestDouble_unit:
  fixes x :: real
  defines "u \<equiv> pow2 (max (expo \<bar>x\<bar>) (- 1022) - 52)"
  shows "\<bar>nearestDouble x - x\<bar> \<le> u / 2"
proof -
  have u: "0 < u"
    by (simp add: u_def)
  have n: "nearestDouble x = of_int (roundHalfEven (x / u)) * u"
    by (simp add: nearestDouble_def Let_def u_def)
  have "x = x / u * u"
    using u by simp
  then have "nearestDouble x - x = of_int (roundHalfEven (x / u)) * u - x / u * u"
    using n by simp
  then have "nearestDouble x - x = (of_int (roundHalfEven (x / u)) - x / u) * u"
    by (simp only: left_diff_distrib)
  then have "\<bar>nearestDouble x - x\<bar> = \<bar>of_int (roundHalfEven (x / u)) - x / u\<bar> * u"
    using u by (simp add: abs_mult)
  also have "\<dots> \<le> 1 / 2 * u"
    using roundHalfEven_error [of "x / u"] u by (simp only: mult_right_mono less_imp_le)
  finally show ?thesis
    by simp
qed

lemma nearestDouble_error:
  "\<bar>nearestDouble x - x\<bar> \<le> \<bar>x\<bar> * pow2 (- 53) + pow2 (- 1075)"
proof (cases "x = 0")
  case True
  then show ?thesis
    by (simp add: less_imp_le)
next
  case False
  then have pos: "0 < \<bar>x\<bar>"
    by simp
  define e where "e = max (expo \<bar>x\<bar>) (- 1022)"
  have b: "\<bar>nearestDouble x - x\<bar> \<le> pow2 (e - 52) / 2"
    unfolding e_def by (rule nearestDouble_unit)
  have h: "pow2 (e - 52) / 2 = pow2 (e - 53)"
    using pow2_pred [of "e - 52"] by simp
  show ?thesis
  proof (cases "- 1022 \<le> expo \<bar>x\<bar>")
    case True
    then have "e = expo \<bar>x\<bar>"
      by (simp add: e_def)
    then have "pow2 (e - 53) = pow2 (expo \<bar>x\<bar>) * pow2 (- 53)"
      using pow2_add [of "expo \<bar>x\<bar>" "- 53"] by simp
    also have "\<dots> \<le> \<bar>x\<bar> * pow2 (- 53)"
      using expo_bounds [OF pos] by (simp only: mult_right_mono less_imp_le pow2_pos)
    finally have "pow2 (e - 53) \<le> \<bar>x\<bar> * pow2 (- 53)" .
    moreover have "0 < pow2 (- 1075)"
      by simp
    ultimately show ?thesis
      using b h by linarith
  next
    case False
    then have "e = - 1022"
      by (simp add: e_def)
    then have "pow2 (e - 53) = pow2 (- 1075)"
      by simp
    moreover have "0 \<le> \<bar>x\<bar> * pow2 (- 53)"
      by (simp add: less_imp_le)
    ultimately show ?thesis
      using b h by linarith
  qed
qed

text \<open>A multiple of the unit of its binade, with at most 53 bits, is a double.\<close>

lemma nearestDouble_multiple:
  assumes e: "- 1022 \<le> e" and m: "\<bar>m\<bar> \<le> 2 ^ 53"
  shows "nearestDouble (of_int m * pow2 (e - 52)) = of_int m * pow2 (e - 52)"
proof (cases "m = 0")
  case True
  then show ?thesis
    by simp
next
  case False
  define y where "y = of_int m * pow2 (e - 52)"
  define e' where "e' = max (expo \<bar>y\<bar>) (- 1022)"
  have ay: "\<bar>y\<bar> = of_int \<bar>m\<bar> * pow2 (e - 52)"
    by (simp add: y_def abs_mult abs_of_pos)
  have pos: "0 < \<bar>y\<bar>"
    using False by (simp add: y_def)
  have "of_int \<bar>m\<bar> \<le> (2::real) ^ 53"
    using m by (metis of_int_le_iff of_int_numeral of_int_power)
  then have "\<bar>y\<bar> \<le> 2 ^ 53 * pow2 (e - 52)"
    unfolding ay by (simp only: mult_right_mono less_imp_le pow2_pos)
  also have "(2::real) ^ 53 * pow2 (e - 52) = pow2 53 * pow2 (e - 52)"
    by (simp add: pow2_def)
  also have "\<dots> = pow2 (e + 1)"
    by (rule pow2_53)
  finally have le: "\<bar>y\<bar> \<le> pow2 (e + 1)" .
  have e'1: "e' \<le> e + 1"
  proof -
    have "\<bar>y\<bar> < pow2 (e + 1 + 1)"
      using le pow2_Suc [of "e + 1"] pow2_pos [of "e + 1"] by linarith
    then have "expo \<bar>y\<bar> < e + 1 + 1"
      using pos by (rule expo_less [rotated])
    then show ?thesis
      using e by (simp add: e'_def)
  qed
  have e'0: "- 1022 \<le> e'"
    by (simp add: e'_def)
  have int: "\<exists>k. y / pow2 (e' - 52) = of_int k"
  proof (cases "e' \<le> e")
    case True
    define d where "d = e - e'"
    have d: "0 \<le> d"
      using True by (simp add: d_def)
    have "pow2 (e - 52) = pow2 d * pow2 (e' - 52)"
      using pow2_add [of d "e' - 52"] by (simp add: d_def)
    then have "y / pow2 (e' - 52) = of_int m * pow2 d"
      by (simp add: y_def)
    also have "\<dots> = of_int (m * 2 ^ nat d)"
      using d by (simp add: pow2_nat)
    finally show ?thesis
      by blast
  next
    case False
    then have e': "e' = e + 1"
      using e'1 by simp
    then have "expo \<bar>y\<bar> = e + 1"
      using e by (simp add: e'_def max_def split: if_splits)
    then have "pow2 (e + 1) \<le> \<bar>y\<bar>"
      using expo_bounds [OF pos] by simp
    then have "\<bar>y\<bar> = pow2 (e + 1)"
      using le by simp
    then have "of_int \<bar>m\<bar> * pow2 (e - 52) = pow2 53 * pow2 (e - 52)"
      using ay by (simp only: pow2_53)
    then have "(of_int \<bar>m\<bar> :: real) = pow2 53"
      by simp
    then have "(of_int \<bar>m\<bar> :: real) = of_int (2 ^ 53)"
      by (simp add: pow2_def)
    then have am: "\<bar>m\<bar> = 2 ^ 53"
      by (simp only: of_int_eq_iff)
    have "pow2 (e' - 52) = 2 * pow2 (e - 52)"
      using pow2_Suc [of "e - 52"] by (simp add: e')
    then have "y / pow2 (e' - 52) = of_int m / 2"
      by (simp add: y_def)
    moreover have "m = 2 ^ 53 \<or> m = - (2 ^ 53)"
      using am by linarith
    then have "2 dvd m"
      by auto
    then have "real_of_int (m div 2) = real_of_int m / real_of_int 2"
      by (rule real_of_int_div)
    ultimately have "y / pow2 (e' - 52) = of_int (m div 2)"
      by (simp only: of_int_numeral)
    then show ?thesis
      by blast
  qed
  then obtain k where k: "y / pow2 (e' - 52) = of_int k"
    by blast
  have "nearestDouble y = of_int (roundHalfEven (y / pow2 (e' - 52))) * pow2 (e' - 52)"
    by (simp add: nearestDouble_def Let_def e'_def)
  also have "\<dots> = y / pow2 (e' - 52) * pow2 (e' - 52)"
    unfolding k by simp
  also have "\<dots> = y"
    by simp
  finally show ?thesis
    by (simp add: y_def)
qed

lemma roundHalfEven_bound:
  assumes "\<bar>y\<bar> \<le> of_int k"
  shows "\<bar>roundHalfEven y\<bar> \<le> k"
proof -
  have "y \<le> of_int k" and "of_int (- k) \<le> y"
    using assms by simp_all
  then have "roundHalfEven y \<le> k" and "- k \<le> roundHalfEven y"
    using roundHalfEven_mono_int by blast+
  then show ?thesis
    by simp
qed

lemma nearestDouble_idem [simp]: "nearestDouble (nearestDouble x) = nearestDouble x"
proof -
  define e where "e = max (expo \<bar>x\<bar>) (- 1022)"
  define m where "m = roundHalfEven (x / pow2 (e - 52))"
  have n: "nearestDouble x = of_int m * pow2 (e - 52)"
    by (simp add: nearestDouble_def Let_def e_def m_def)
  have e: "- 1022 \<le> e"
    by (simp add: e_def)
  have "\<bar>x\<bar> \<le> pow2 (e + 1)"
  proof (cases "x = 0")
    case True
    then show ?thesis
      by (simp add: less_imp_le)
  next
    case False
    then have "\<bar>x\<bar> < pow2 (expo \<bar>x\<bar> + 1)"
      using expo_bounds [of "\<bar>x\<bar>"] by simp
    moreover have "pow2 (expo \<bar>x\<bar> + 1) \<le> pow2 (e + 1)"
      by (simp add: e_def)
    ultimately show ?thesis
      by linarith
  qed
  also have "pow2 (e + 1) = pow2 53 * pow2 (e - 52)"
    by (simp only: pow2_53)
  finally have "\<bar>x\<bar> / pow2 (e - 52) \<le> pow2 53"
    by (simp add: pos_divide_le_eq)
  then have "\<bar>x / pow2 (e - 52)\<bar> \<le> of_int (2 ^ 53)"
    by (simp add: pow2_def)
  then have "\<bar>m\<bar> \<le> 2 ^ 53"
    unfolding m_def by (rule roundHalfEven_bound)
  then show ?thesis
    unfolding n using e by (rule nearestDouble_multiple [rotated])
qed


lemma numberValue_Num:
  "\<bar>nearestDouble x\<bar> < pow2 1024 \<Longrightarrow> numberValue x = Num (nearestDouble x)"
  by (simp add: numberValue_def Let_def abs_less_iff not_le)

lemma numberValue_eq_Num:
  "numberValue x = Num y \<Longrightarrow> y = nearestDouble x \<and> \<bar>y\<bar> < pow2 1024"
  by (auto simp: numberValue_def Let_def abs_less_iff not_le split: if_splits)

lemma theNumber_eq_Num:
  assumes "theNumber a = Num s"
  shows "nearestDouble s = s" and "\<bar>s\<bar> < pow2 1024" and "theNumber (Num s) = Num s"
proof -
  obtain r where a: "a = Num r"
    using assms by (cases a) simp_all
  then have n: "s = nearestDouble r \<and> \<bar>s\<bar> < pow2 1024"
    using assms numberValue_eq_Num by simp
  then have e: "s = nearestDouble r"
    by blast
  show i: "nearestDouble s = s"
    by (simp only: e nearestDouble_idem)
  show b: "\<bar>s\<bar> < pow2 1024"
    using n by blast
  show "theNumber (Num s) = Num s"
    using numberValue_Num [of s] i b by simp
qed

lemma theNumber_idem [simp]: "theNumber (theNumber a) = theNumber a"
proof (cases "theNumber a")
  case (Num s)
  then show ?thesis
    using theNumber_eq_Num(3) by simp
qed simp_all

lemma taxRate_value:
  "theNumber (Num 0.05) = Num (3602879701896397 / 72057594037927936)"
  by (simp add: number_eval)

lemma total_error_arith:
  fixes A B C D S T H :: real
  assumes "D \<le> A + B + S / 360287970189639680"
    and "B \<le> S * (3602879701896397 / 72057594037927936) / 9007199254740992 + H"
    and "A \<le> C / 9007199254740992 + H"
    and "C \<le> S + T"
    and "T \<le> S * (3602879701896397 / 72057594037927936)
             + S * (3602879701896397 / 72057594037927936) / 9007199254740992 + H"
    and "0 < H" and "0 \<le> S"
  shows "D \<le> S / 4503599627370496 + 4 * H"
  using assms by linarith

lemma grand_total_error:
  assumes a: "theNumber a = Num s" and s: "\<bar>s\<bar> \<le> pow2 1023"
  shows "\<exists>g. numPlus a (numTimes a (Num 0.05)) = Num g
           \<and> \<bar>g - s * 1.05\<bar> \<le> \<bar>s\<bar> * pow2 (- 52) + pow2 (- 1073)"
proof -
  define c :: real where "c = 3602879701896397 / 72057594037927936"
  define t where "t = nearestDouble (s * c)"
  define g where "g = nearestDouble (s + t)"
  define H where "H = pow2 (- 1075)"
  define P where "P = pow2 1023"
  have U: "pow2 (- 53) = 1 / 9007199254740992" "pow2 (- 52) = 1 / 4503599627370496"
    by (simp_all add: pow2_def)
  have H0: "0 < H"
    by (simp add: H_def)
  have "H \<le> pow2 1013"
    by (simp add: H_def)
  moreover have "P = pow2 1013 * pow2 10"
    unfolding P_def by (simp only: pow2_add [symmetric]) simp
  ultimately have HP: "1024 * H \<le> P"
    by (simp add: pow2_def)
  have P2: "pow2 1024 = 2 * P"
    using pow2_Suc [of 1023] by (simp add: P_def)
  have H4: "pow2 (- 1073) = 4 * H"
    using pow2_Suc [of "- 1075"] pow2_Suc [of "- 1074"] by (simp add: H_def)
  have sP: "\<bar>s\<bar> \<le> P"
    using s by (simp add: P_def)
  have sc: "\<bar>s * c\<bar> = \<bar>s\<bar> * c"
    by (simp add: abs_mult c_def)
  have e1: "\<bar>t - s * c\<bar> \<le> \<bar>s\<bar> * c / 9007199254740992 + H"
    using nearestDouble_error [of "s * c"] by (simp add: t_def sc U H_def)
  have e2: "\<bar>g - (s + t)\<bar> \<le> \<bar>s + t\<bar> / 9007199254740992 + H"
    using nearestDouble_error [of "s + t"] by (simp add: g_def U H_def)
  have tb: "\<bar>t\<bar> \<le> \<bar>s\<bar> * c + \<bar>s\<bar> * c / 9007199254740992 + H"
    using e1 sc by linarith
  have tP: "\<bar>t\<bar> < pow2 1024"
    using tb sP HP H0 unfolding P2 c_def by linarith
  have st: "\<bar>s + t\<bar> \<le> \<bar>s\<bar> + \<bar>t\<bar>"
    by (rule abs_triangle_ineq)
  have gb: "\<bar>g\<bar> \<le> \<bar>s + t\<bar> + \<bar>s + t\<bar> / 9007199254740992 + H"
    using e2 by linarith
  have gP: "\<bar>g\<bar> < pow2 1024"
    using gb st tb sP HP H0 unfolding P2 c_def by linarith
  have tr: "theNumber (Num 0.05) = Num c"
    unfolding c_def by (rule taxRate_value)
  have "numTimes a (Num 0.05) = Number_multiply (Num s) (Num c)"
    by (simp only: numTimes_def a tr)
  also have "\<dots> = numberValue (s * c)"
    by simp
  also have "\<dots> = Num t"
    using tP unfolding t_def by (rule numberValue_Num)
  finally have m: "numTimes a (Num 0.05) = Num t" .
  have "nearestDouble t = t"
    by (simp add: t_def)
  then have tt: "theNumber (Num t) = Num t"
    using numberValue_Num [of t] tP by simp
  have "numPlus a (Num t) = Number_add (Num s) (Num t)"
    by (simp only: numPlus_def a tt)
  also have "\<dots> = numberValue (s + t)"
    by simp
  also have "\<dots> = Num g"
    using gP unfolding g_def by (rule numberValue_Num)
  finally have p: "numPlus a (Num t) = Num g" .
  have c05: "c - 1 / 20 = 1 / 360287970189639680"
    by (simp add: c_def)
  have "g - s * (21 / 20) = (g - (s + t)) + (t - s * c) + s * (c - 1 / 20)"
    by (simp add: algebra_simps)
  then have "\<bar>g - s * (21 / 20)\<bar> \<le> \<bar>g - (s + t)\<bar> + \<bar>t - s * c\<bar> + \<bar>s * (c - 1 / 20)\<bar>"
    by linarith
  moreover have "\<bar>s * (c - 1 / 20)\<bar> = \<bar>s\<bar> / 360287970189639680"
    unfolding c05 by (simp add: abs_mult)
  ultimately have d: "\<bar>g - s * (21 / 20)\<bar>
      \<le> \<bar>g - (s + t)\<bar> + \<bar>t - s * c\<bar> + \<bar>s\<bar> / 360287970189639680"
    by simp
  have "\<bar>g - s * (21 / 20)\<bar> \<le> \<bar>s\<bar> / 4503599627370496 + 4 * H"
    using d e1 e2 st tb H0 abs_ge_zero [of s] unfolding c_def by (rule total_error_arith)
  then show ?thesis
    using m p by (simp add: U H4)
qed


text \<open>
  \<open>toFixed(2)\<close> on some numbers: 1.005 and 0.125 are rounded on the exact value of the
  double, and the exponent notation starts at \<open>10^21\<close>.
\<close>

lemma toFixed2_examples:
  "toFixed2 (Num 1.005) = ''1.00''"
  "toFixed2 (Num 0.125) = ''0.13''"
  "toFixed2 (Num (- 0.001)) = ''-0.00''"
  "toFixed2 (Num 123456.789) = ''123456.79''"
  "toFixed2 (Num (10 ^ 21 - 10 ^ 5)) = ''999999999999999868928.00''"
  "toFixed2 (Num (10 ^ 21)) = ''1e+21''"
  "toFixed2 (Num (- 15 * 10 ^ 20)) = ''-1.5e+21''"
  "toFixed2 PosInfinity = ''Infinity''"
  "toFixed2 (numTimes NegInfinity (Num 0.05)) = ''-Infinity''"
  "toFixed2 (numPlus PosInfinity NegInfinity) = ''NaN''"
  by (simp_all add: toFixed2_eval number_eval)


subsection \<open>The loops in closed form\<close>

text \<open>The drawing calls of one pass of the line item loop, at row \<open>index\<close> and \<open>yPosition\<close>.\<close>

definition lineItemRow ::
  "real \<Rightarrow> real \<Rightarrow> real list \<Rightarrow> real \<Rightarrow> real \<Rightarrow> nat \<Rightarrow> LineItem \<Rightarrow> primitive list" where
  "lineItemRow tableLeft tableRight columnWidths normalFontSize yPosition index item =
     (if index mod 2 = 0
      then [drawRectangle tableLeft (yPosition - 15 + 5) (tableRight - tableLeft) 25
              (rgb 0.97 0.97 0.97) None None]
      else []) @
     [drawText (description item) (tableLeft + 10) yPosition
        normalFontSize Helvetica (rgb 0 0 0),
      drawText (toString (quantity item)) (tableLeft + columnWidths ! 0 + 10) yPosition
        normalFontSize Helvetica (rgb 0 0 0),
      drawText (''$'' @ toFixed2 (unitPrice item))
        (tableLeft + columnWidths ! 0 + columnWidths ! 1 + 10) yPosition
        normalFontSize Helvetica (rgb 0 0 0),
      drawText (''$'' @ toFixed2 (numTimes (ofInt (quantity item)) (unitPrice item)))
        (tableLeft + columnWidths ! 0 + columnWidths ! 1 + columnWidths ! 2 + 10) yPosition
        normalFontSize Helvetica (rgb 0 0 0)]"

fun lineItemRows ::
  "real \<Rightarrow> real \<Rightarrow> real list \<Rightarrow> real \<Rightarrow> real \<Rightarrow> nat \<Rightarrow> LineItem list \<Rightarrow> primitive list" where
  "lineItemRows tableLeft tableRight columnWidths normalFontSize yPosition index [] = []"
| "lineItemRows tableLeft tableRight columnWidths normalFontSize yPosition index (item # items) =
     lineItemRow tableLeft tableRight columnWidths normalFontSize yPosition index item @
     lineItemRows tableLeft tableRight columnWidths normalFontSize (yPosition - 25) (index + 1) items"

lemma drawLineItems_eq:
  "drawLineItems tleft tright cw nfs (page, y) i items =
     (page @ lineItemRows tleft tright cw nfs y i items, y - 25 * real (length items))"
proof (induction items arbitrary: page y i)
  case Nil
  show ?case by simp
next
  case (Cons item items)
  show ?case
    by (simp add: Cons.IH lineItemRow_def Let_def algebra_simps)
qed

lemma length_drawAddressLines [simp]: "length (drawAddressLines y nfs lines) = length lines"
  by (simp add: drawAddressLines_def)

lemma nth_drawAddressLines:
  "k < length lines \<Longrightarrow>
     drawAddressLines y nfs lines ! k =
       drawText (lines ! k) 50 (y - real k * 15) nfs Helvetica (rgb 0 0 0)"
  by (simp add: drawAddressLines_def nth_enumerate_eq)

lemma split_lines_not_Nil [simp]: "split_lines s \<noteq> []"
  by (induction s) (simp_all split: list.splits)

lemma split_lines_no_LF: "LF \<notin> set l \<Longrightarrow> split_lines l = [l]"
  by (induction l) auto

lemma split_lines_append_line:
  "LF \<notin> set l \<Longrightarrow> split_lines (a @ LF # l) = split_lines a @ [l]"
  by (induction a) (auto simp: split_lines_no_LF split: list.splits)

subsection \<open>The record after the assignment to \<open>data.totalAmount\<close>\<close>

lemma fields_after_assignment [simp]:
  "invoiceNumber (if c then d\<lparr>totalAmount := x\<rparr> else d) = invoiceNumber d"
  "invoiceDate (if c then d\<lparr>totalAmount := x\<rparr> else d) = invoiceDate d"
  "dueDate (if c then d\<lparr>totalAmount := x\<rparr> else d) = dueDate d"
  "companyName (if c then d\<lparr>totalAmount := x\<rparr> else d) = companyName d"
  "companyAddress (if c then d\<lparr>totalAmount := x\<rparr> else d) = companyAddress d"
  "companyEmail (if c then d\<lparr>totalAmount := x\<rparr> else d) = companyEmail d"
  "companyPhone (if c then d\<lparr>totalAmount := x\<rparr> else d) = companyPhone d"
  "clientName (if c then d\<lparr>totalAmount := x\<rparr> else d) = clientName d"
  "clientAddress (if c then d\<lparr>totalAmount := x\<rparr> else d) = clientAddress d"
  "clientEmail (if c then d\<lparr>totalAmount := x\<rparr> else d) = clientEmail d"
  "notes' (if c then d\<lparr>totalAmount := x\<rparr> else d) = notes' d"
  "lineItems (if c then d\<lparr>totalAmount := x\<rparr> else d) = lineItems d"
  "status (if c then d\<lparr>totalAmount := x\<rparr> else d) = status d"
  by simp_all

lemma totalAmount_after_assignment [simp]:
  "totalAmount (if totalAmount d = None then d\<lparr>totalAmount := Some x\<rparr> else d) =
     Some (case totalAmount d of None \<Rightarrow> x | Some v \<Rightarrow> v)"
  by (cases "totalAmount d") simp_all

subsection \<open>An example invoice\<close>

text \<open>
  A runtime in UTC whose clock shows 2024-01-05T00:00:00Z and which parses nothing beyond
  the ECMAScript format, and the single-item invoice of the specification's scenario, with a
  company address of three lines.
\<close>

definition exampleRuntime :: runtime where
  "exampleRuntime = \<lparr>localTZA = (\<lambda>t isUTC. 0), clock = 1704412800000, legacyParse = (\<lambda>s. None)\<rparr>"

definition exampleInvoice :: InvoiceData where
  "exampleInvoice =
     \<lparr>invoiceNumber = ''INV-1'',
      invoiceDate = ''2024-01-05'',
      dueDate = ''2024-02-04'',
      companyName = ''Acme Ltd'',
      companyAddress = ''1 Main St'' @ [LF] @ ''Suite 2'' @ [LF] @ ''Springfield'',
      companyEmail = ''billing@acme.test'',
      companyPhone = ''555-0100'',
      clientName = ''Client Co'',
      clientAddress = ''9 Side Rd'' @ [LF] @ ''Shelbyville'',
      clientEmail = ''ap@client.test'',
      notes' = None,
      totalAmount = None,
      lineItems = [\<lparr>description = ''Consulting'', quantity = 2, unitPrice = Num 100\<rparr>],
      status = Some ''paid''\<rparr>"

lemma example_company_lines:
  "split_lines (companyAddress exampleInvoice) = [''1 Main St'', ''Suite 2'', ''Springfield'']"
  by (simp add: exampleInvoice_def LF_def)

lemma example_client_lines:
  "split_lines (clientAddress exampleInvoice) = [''9 Side Rd'', ''Shelbyville'']"
  by (simp add: exampleInvoice_def LF_def)

subsection \<open>Address blocks\<close>

text \<open>
  C6. The lines of the company address are drawn from \<open>baseY = height - 110\<close> downwards,
  15 units apart, and the content that trails the block follows the last line: with \<open>n\<close>
  address lines the company email is drawn at \<open>baseY - n * 15\<close> and the company phone at
  \<open>baseY - n * 15 - 15\<close>. For an address of three lines these are \<open>baseY - 3 * 15\<close> and
  \<open>baseY - 3 * 15 - 15\<close>. The client block does the same from \<open>height - 215\<close>: with \<open>m\<close>
  address lines the client email is drawn at \<open>height - 215 - m * 15\<close>.
\<close>

theorem address_block_trailing_positions:
  fixes rt :: runtime and d :: InvoiceData
  defines "n \<equiv> length (split_lines (companyAddress d))"
  defines "m \<equiv> length (split_lines (clientAddress d))"
  defines "page \<equiv> snd (generateInvoice rt d)"
  defines "baseY \<equiv> 841.89 - 110"
  shows "(\<forall>k<n. page ! (3 + k) =
            drawText (split_lines (companyAddress d) ! k) 50 (baseY - real k * 15)
              10 Helvetica (rgb 0 0 0))
       \<and> page ! (3 + n) =
            drawText (''Email: '' @ companyEmail d) 50 (baseY - real n * 15)
              10 Helvetica (rgb 0 0 0)
       \<and> page ! (4 + n) =
            drawText (''Phone: '' @ companyPhone d) 50 (baseY - real n * 15 - 15)
              10 Helvetica (rgb 0 0 0)
       \<and> (n = 3 \<longrightarrow>
            page ! 6 =
              drawText (''Email: '' @ companyEmail d) 50 (baseY - 3 * 15)
                10 Helvetica (rgb 0 0 0)
          \<and> page ! 7 =
              drawText (''Phone: '' @ companyPhone d) 50 (baseY - 3 * 15 - 15)
                10 Helvetica (rgb 0 0 0))
       \<and> page ! (14 + n + m) =
            drawText (''Email: '' @ clientEmail d) 50 (841.89 - 215 - real m * 15)
              10 Helvetica (rgb 0 0 0)"
proof -
  have lines: "\<forall>k<n. page ! (3 + k) =
      drawText (split_lines (companyAddress d) ! k) 50 (baseY - real k * 15)
        10 Helvetica (rgb 0 0 0)"
    unfolding page_def n_def baseY_def
    by (simp add: generateInvoice_def Let_def drawLineItems_eq nth_append nth_Cons'
        nth_drawAddressLines)
  have email: "page ! (3 + n) =
      drawText (''Email: '' @ companyEmail d) 50 (baseY - real n * 15) 10 Helvetica (rgb 0 0 0)"
    unfolding page_def n_def baseY_def
    by (simp add: generateInvoice_def Let_def drawLineItems_eq nth_append nth_Cons')
  have phone: "page ! (4 + n) =
      drawText (''Phone: '' @ companyPhone d) 50 (baseY - real n * 15 - 15)
        10 Helvetica (rgb 0 0 0)"
    unfolding page_def n_def baseY_def
    by (simp add: generateInvoice_def Let_def drawLineItems_eq nth_append nth_Cons')
  have client: "page ! (14 + n + m) =
      drawText (''Email: '' @ clientEmail d) 50 (841.89 - 215 - real m * 15)
        10 Helvetica (rgb 0 0 0)"
    unfolding page_def n_def m_def
    by (simp add: generateInvoice_def Let_def drawLineItems_eq nth_append nth_Cons')
  have three: "n = 3 \<longrightarrow>
      page ! 6 =
        drawText (''Email: '' @ companyEmail d) 50 (baseY - 3 * 15) 10 Helvetica (rgb 0 0 0)
    \<and> page ! 7 =
        drawText (''Phone: '' @ companyPhone d) 50 (baseY - 3 * 15 - 15)
          10 Helvetica (rgb 0 0 0)"
    using email phone by auto
  show ?thesis
    using lines email phone three client by blast
qed

theorem address_block_trailing_positions_witness:
  "length (split_lines (companyAddress exampleInvoice)) = 3
   \<and> snd (generateInvoice exampleRuntime exampleInvoice) ! 5 =
       drawText ''Springfield'' 50 (841.89 - 110 - 2 * 15) 10 Helvetica (rgb 0 0 0)
   \<and> snd (generateInvoice exampleRuntime exampleInvoice) ! 6 =
       drawText ''Email: billing@acme.test'' 50 (841.89 - 110 - 3 * 15) 10 Helvetica (rgb 0 0 0)
   \<and> snd (generateInvoice exampleRuntime exampleInvoice) ! 7 =
       drawText ''Phone: 555-0100'' 50 (841.89 - 110 - 3 * 15 - 15) 10 Helvetica (rgb 0 0 0)
   \<and> snd (generateInvoice exampleRuntime exampleInvoice) ! 19 =
       drawText ''Email: ap@client.test'' 50 (841.89 - 215 - 2 * 15) 10 Helvetica (rgb 0 0 0)"
proof -
  have n: "length (split_lines (companyAddress exampleInvoice)) = 3"
    by (simp add: example_company_lines)
  have m: "length (split_lines (clientAddress exampleInvoice)) = 2"
    by (simp add: example_client_lines)
  have f: "companyEmail exampleInvoice = ''billing@acme.test''"
    "companyPhone exampleInvoice = ''555-0100''"
    "clientEmail exampleInvoice = ''ap@client.test''"
    by (simp_all add: exampleInvoice_def)
  show ?thesis
    using address_block_trailing_positions [of exampleInvoice exampleRuntime]
    by (simp add: n m f example_company_lines All_less_Suc)
qed

subsection \<open>The status badge\<close>

text \<open>
  Two characters are the same letter when they are equal or are the lower-case and the
  upper-case form of one ASCII letter; two strings are equal without regard to case when
  they have the same letters at every position.
\<close>

definition sameLetter :: "char \<Rightarrow> char \<Rightarrow> bool" where
  "sameLetter a b \<longleftrightarrow>
     a = b
     \<or> (a, b) \<in> set (zip ''abcdefghijklmnopqrstuvwxyz'' ''ABCDEFGHIJKLMNOPQRSTUVWXYZ'')
     \<or> (b, a) \<in> set (zip ''abcdefghijklmnopqrstuvwxyz'' ''ABCDEFGHIJKLMNOPQRSTUVWXYZ'')"

definition equalsIgnoreCase :: "string \<Rightarrow> string \<Rightarrow> bool" where
  "equalsIgnoreCase s t \<longleftrightarrow> list_all2 sameLetter s t"

lemma toUpperChar_letter:
  assumes "(a, b) \<in> set (zip ''abcdefghijklmnopqrstuvwxyz'' ''ABCDEFGHIJKLMNOPQRSTUVWXYZ'')"
  shows "toUpperChar a = b" and "toUpperChar b = b"
proof -
  define L where "L = ''abcdefghijklmnopqrstuvwxyz''"
  define U where "U = ''ABCDEFGHIJKLMNOPQRSTUVWXYZ''"
  have len: "length L = length U"
    by (simp add: L_def U_def)
  have dist: "distinct L"
    by (simp add: L_def)
  have disj: "set L \<inter> set U = {}"
    by (simp add: L_def U_def)
  have mem: "(a, b) \<in> set (zip L U)"
    using assms by (simp only: L_def U_def)
  have keys: "map fst (zip L U) = L"
    using len by simp
  have "map_of (zip L U) a = Some b"
    using mem dist keys by (simp add: map_of_is_SomeI)
  then show "toUpperChar a = b"
    by (simp add: toUpperChar_def flip: L_def U_def)
  have "b \<in> set U"
    using mem by (rule set_zip_rightD)
  then have "b \<notin> set L"
    using disj by blast
  then have "b \<notin> fst ` set (zip L U)"
    using keys by (metis set_map)
  then have "map_of (zip L U) b = None"
    by (simp add: map_of_eq_None_iff)
  then show "toUpperChar b = b"
    by (simp add: toUpperChar_def flip: L_def U_def)
qed

lemma sameLetter_toUpperChar: "sameLetter a b \<Longrightarrow> toUpperChar a = toUpperChar b"
  unfolding sameLetter_def using toUpperChar_letter [of a b] toUpperChar_letter [of b a]
  by (elim disjE) simp_all

lemma equalsIgnoreCase_toUpperCase:
  "equalsIgnoreCase s t \<Longrightarrow> toUpperCase s = toUpperCase t"
  unfolding equalsIgnoreCase_def toUpperCase_def
  by (induction rule: list_all2_induct) (simp_all add: sameLetter_toUpperChar)

lemma equalsIgnoreCase_paid:
  assumes "equalsIgnoreCase s ''paid''"
  shows "toUpperCase s = ''PAID''"
proof -
  have "toUpperCase ''paid'' = ''PAID''"
    by (simp add: toUpperCase_def toUpperChar_def)
  then show ?thesis
    using equalsIgnoreCase_toUpperCase [OF assms] by simp
qed

lemma toUpperCase_statuses:
  "toUpperCase ''draft'' = ''DRAFT''"
  "toUpperCase ''sent'' = ''SENT''"
  "toUpperCase ''paid'' = ''PAID''"
  "toUpperCase ''overdue'' = ''OVERDUE''"
  "toUpperCase ''cancelled'' = ''CANCELLED''"
  by (simp_all add: toUpperCase_def toUpperChar_def)

text \<open>
  The badge and its label are the drawing calls number \<open>9 + n\<close> and \<open>10 + n\<close> of the page
  (counted from 0), where \<open>n\<close> is the number of lines of the company address.
\<close>

lemma status_badge_calls:
  fixes rt :: runtime and d :: InvoiceData
  defines "n \<equiv> length (split_lines (companyAddress d))"
  defines "page \<equiv> snd (generateInvoice rt d)"
  defines "label \<equiv>
    (case status d of
       None \<Rightarrow> ''UNPAID''
     | Some s \<Rightarrow> (if toUpperCase s = [] then ''UNPAID'' else toUpperCase s))"
  shows "page ! (9 + n) =
           drawRectangle (595.28 - 150) (841.89 - 145) 70 18
             (if label = ''PAID'' then rgb 0.2 0.7 0.2 else rgb 0.8 0.2 0.2)
             (Some (rgb 0.8 0.8 0.8)) (Some 1)"
    and "page ! (10 + n) =
           drawText label (595.28 - 145) (841.89 - 135) 10 HelveticaBold (rgb 1 1 1)"
  unfolding page_def n_def label_def
  by (simp_all add: generateInvoice_def Let_def drawLineItems_eq nth_append nth_Cons')

text \<open>
  C3. When the status is \<open>paid\<close> in any mix of upper and lower case, the badge rectangle is
  filled with \<open>rgb(0.2, 0.7, 0.2)\<close>; when it is \<open>draft\<close>, \<open>sent\<close>, \<open>overdue\<close> or
  \<open>cancelled\<close>, the rectangle is filled with \<open>rgb(0.8, 0.2, 0.2)\<close>. In both cases the next
  drawing call after the rectangle writes the status in upper case, so the text lies on top
  of the badge.
\<close>

theorem status_badge_classification:
  fixes rt :: runtime and d :: InvoiceData
  defines "n \<equiv> length (split_lines (companyAddress d))"
  defines "page \<equiv> snd (generateInvoice rt d)"
  shows "(status d = Some s \<and> equalsIgnoreCase s ''paid'' \<longrightarrow>
            page ! (9 + n) =
              drawRectangle (595.28 - 150) (841.89 - 145) 70 18 (rgb 0.2 0.7 0.2)
                (Some (rgb 0.8 0.8 0.8)) (Some 1)
          \<and> page ! (10 + n) =
              drawText ''PAID'' (595.28 - 145) (841.89 - 135) 10 HelveticaBold (rgb 1 1 1))
       \<and> (status d = Some s \<and> s \<in> {''draft'', ''sent'', ''overdue'', ''cancelled''} \<longrightarrow>
            page ! (9 + n) =
              drawRectangle (595.28 - 150) (841.89 - 145) 70 18 (rgb 0.8 0.2 0.2)
                (Some (rgb 0.8 0.8 0.8)) (Some 1)
          \<and> page ! (10 + n) =
              drawText (toUpperCase s) (595.28 - 145) (841.89 - 135) 10 HelveticaBold (rgb 1 1 1)
          \<and> toUpperCase s \<in> {''DRAFT'', ''SENT'', ''OVERDUE'', ''CANCELLED''})"
proof (intro conjI impI)
  assume a: "status d = Some s \<and> equalsIgnoreCase s ''paid''"
  then have u: "toUpperCase s = ''PAID''"
    by (simp add: equalsIgnoreCase_paid)
  show "page ! (9 + n) =
      drawRectangle (595.28 - 150) (841.89 - 145) 70 18 (rgb 0.2 0.7 0.2)
        (Some (rgb 0.8 0.8 0.8)) (Some 1)"
    using status_badge_calls(1) [of rt d] a u by (simp add: page_def n_def)
  show "page ! (10 + n) =
      drawText ''PAID'' (595.28 - 145) (841.89 - 135) 10 HelveticaBold (rgb 1 1 1)"
    using status_badge_calls(2) [of rt d] a u by (simp add: page_def n_def)
next
  assume a: "status d = Some s \<and> s \<in> {''draft'', ''sent'', ''overdue'', ''cancelled''}"
  then show u: "toUpperCase s \<in> {''DRAFT'', ''SENT'', ''OVERDUE'', ''CANCELLED''}"
    using toUpperCase_statuses by auto
  then have ne: "toUpperCase s \<noteq> []" "toUpperCase s \<noteq> ''PAID''"
    by auto
  show "page ! (9 + n) =
      drawRectangle (595.28 - 150) (841.89 - 145) 70 18 (rgb 0.8 0.2 0.2)
        (Some (rgb 0.8 0.8 0.8)) (Some 1)"
    using status_badge_calls(1) [of rt d] a ne by (simp add: page_def n_def)
  show "page ! (10 + n) =
      drawText (toUpperCase s) (595.28 - 145) (841.89 - 135) 10 HelveticaBold (rgb 1 1 1)"
    using status_badge_calls(2) [of rt d] a ne by (simp add: page_def n_def)
qed

theorem status_badge_classification_witness:
  "equalsIgnoreCase ''paid'' ''paid''
   \<and> snd (generateInvoice exampleRuntime exampleInvoice) ! 12 =
       drawRectangle (595.28 - 150) (841.89 - 145) 70 18 (rgb 0.2 0.7 0.2)
         (Some (rgb 0.8 0.8 0.8)) (Some 1)
   \<and> snd (generateInvoice exampleRuntime exampleInvoice) ! 13 =
       drawText ''PAID'' (595.28 - 145) (841.89 - 135) 10 HelveticaBold (rgb 1 1 1)
   \<and> snd (generateInvoice exampleRuntime (exampleInvoice\<lparr>status := Some ''overdue''\<rparr>)) ! 12 =
       drawRectangle (595.28 - 150) (841.89 - 145) 70 18 (rgb 0.8 0.2 0.2)
         (Some (rgb 0.8 0.8 0.8)) (Some 1)
   \<and> snd (generateInvoice exampleRuntime (exampleInvoice\<lparr>status := Some ''overdue''\<rparr>)) ! 13 =
       drawText ''OVERDUE'' (595.28 - 145) (841.89 - 135) 10 HelveticaBold (rgb 1 1 1)"
proof -
  have e: "equalsIgnoreCase ''paid'' ''paid''"
    by (simp add: equalsIgnoreCase_def sameLetter_def)
  have st: "status exampleInvoice = Some ''paid''"
    by (simp add: exampleInvoice_def)
  have n: "length (split_lines (companyAddress exampleInvoice)) = 3"
    by (simp add: example_company_lines)
  have p: "snd (generateInvoice exampleRuntime exampleInvoice) ! 12 =
       drawRectangle (595.28 - 150) (841.89 - 145) 70 18 (rgb 0.2 0.7 0.2)
         (Some (rgb 0.8 0.8 0.8)) (Some 1)
     \<and> snd (generateInvoice exampleRuntime exampleInvoice) ! 13 =
       drawText ''PAID'' (595.28 - 145) (841.89 - 135) 10 HelveticaBold (rgb 1 1 1)"
    using status_badge_classification [of exampleInvoice "''paid''" exampleRuntime] e st
    by (simp add: n)
  have q: "snd (generateInvoice exampleRuntime (exampleInvoice\<lparr>status := Some ''overdue''\<rparr>)) ! 12 =
       drawRectangle (595.28 - 150) (841.89 - 145) 70 18 (rgb 0.8 0.2 0.2)
         (Some (rgb 0.8 0.8 0.8)) (Some 1)
     \<and> snd (generateInvoice exampleRuntime (exampleInvoice\<lparr>status := Some ''overdue''\<rparr>)) ! 13 =
       drawText ''OVERDUE'' (595.28 - 145) (841.89 - 135) 10 HelveticaBold (rgb 1 1 1)"
    using status_badge_classification
      [of "exampleInvoice\<lparr>status := Some ''overdue''\<rparr>" "''overdue''" exampleRuntime]
    by (simp add: n toUpperCase_statuses)
  show ?thesis
    using e p q by blast
qed

text \<open>
  C10. When the record has no status, the badge is still drawn: the rectangle is filled
  with \<open>rgb(0.8, 0.2, 0.2)\<close> and the text on it is \<open>UNPAID\<close>, which is neither one of the
  five status values nor the upper-case form of one.
\<close>

theorem absent_status_badge:
  fixes rt :: runtime and d :: InvoiceData
  defines "n \<equiv> length (split_lines (companyAddress d))"
  defines "page \<equiv> snd (generateInvoice rt d)"
  assumes "status d = None"
  shows "page ! (9 + n) =
           drawRectangle (595.28 - 150) (841.89 - 145) 70 18 (rgb 0.8 0.2 0.2)
             (Some (rgb 0.8 0.8 0.8)) (Some 1)
       \<and> page ! (10 + n) =
           drawText ''UNPAID'' (595.28 - 145) (841.89 - 135) 10 HelveticaBold (rgb 1 1 1)
       \<and> ''UNPAID'' \<notin> {''draft'', ''sent'', ''paid'', ''overdue'', ''cancelled''}
       \<and> ''UNPAID'' \<notin> toUpperCase ` {''draft'', ''sent'', ''paid'', ''overdue'', ''cancelled''}"
  using status_badge_calls [of rt d] assms
  by (simp add: toUpperCase_statuses)

theorem absent_status_badge_witness:
  "status (exampleInvoice\<lparr>status := None\<rparr>) = None
   \<and> snd (generateInvoice exampleRuntime (exampleInvoice\<lparr>status := None\<rparr>)) ! 12 =
       drawRectangle (595.28 - 150) (841.89 - 145) 70 18 (rgb 0.8 0.2 0.2)
         (Some (rgb 0.8 0.8 0.8)) (Some 1)
   \<and> snd (generateInvoice exampleRuntime (exampleInvoice\<lparr>status := None\<rparr>)) ! 13 =
       drawText ''UNPAID'' (595.28 - 145) (841.89 - 135) 10 HelveticaBold (rgb 1 1 1)"
proof -
  have n: "length (split_lines (companyAddress exampleInvoice)) = 3"
    by (simp add: example_company_lines)
  show ?thesis
    using absent_status_badge [of "exampleInvoice\<lparr>status := None\<rparr>" exampleRuntime]
    by (simp add: n)
qed

subsection \<open>Row banding\<close>


text \<open>A rectangle with the banding fill.\<close>

fun isBand :: "primitive \<Rightarrow> bool" where
  "isBand (drawRectangle x y w h c borderColor borderWidth) \<longleftrightarrow> c = rgb 0.97 0.97 0.97"
| "isBand (drawText t x y size' f c) \<longleftrightarrow> False"
| "isBand (drawLine a b thickness c) \<longleftrightarrow> False"

lemma drawRectangle_notin_drawAddressLines [simp]:
  "drawRectangle x y w h c bc bw \<notin> set (drawAddressLines y0 nfs lines)"
  by (auto simp: drawAddressLines_def)

lemma isBand_drawAddressLines [simp]:
  "p \<in> set (drawAddressLines y0 nfs lines) \<Longrightarrow> \<not> isBand p"
  by (auto simp: drawAddressLines_def)






subsection \<open>Totals\<close>

text \<open>
  The subtotal the function prints: \<open>data.totalAmount ?? 0\<close> after the assignment at the
  head of the function, that is the caller's \<open>totalAmount\<close> when the record has one and the
  sum over the line items otherwise.
\<close>

lemma length_generateInvoice:
  "length (snd (generateInvoice rt d)) =
     39 + length (split_lines (companyAddress d)) + length (split_lines (clientAddress d))
     + length (lineItemRows 50 (595.28 - 50) [280, 70, 80, 90] 10 (841.89 - 280 - 45) 0
                 (lineItems d))"
  by (simp add: generateInvoice_def Let_def drawLineItems_eq)

lemma totals_calls:
  fixes rt :: runtime and d :: InvoiceData
  defines "page \<equiv> snd (generateInvoice rt d)"
  defines "y \<equiv> 841.89 - 280 - 45 - 25 * real (length (lineItems d)) - 5"
  defines "subtotal \<equiv>
    (case totalAmount d of
       None \<Rightarrow> foldl (\<lambda>sum item. numPlus sum (numTimes (ofInt (quantity item)) (unitPrice item)))
                 (Num 0) (lineItems d)
     | Some v \<Rightarrow> v)"
  shows "page ! (length page - 18) =
           drawText (''$'' @ toFixed2 subtotal) 490 y 10 Helvetica (rgb 0.2 0.2 0.2)"
    and "page ! (length page - 16) =
           drawText (''$'' @ toFixed2 (numTimes subtotal (Num 0.05))) 490 (y - 20) 10 Helvetica
             (rgb 0.2 0.2 0.2)"
    and "page ! (length page - 13) =
           drawText (''$'' @ toFixed2 (numPlus subtotal (numTimes subtotal (Num 0.05)))) 490
             (y - 40) 12 HelveticaBold (rgb 1 1 1)"
  unfolding page_def y_def subtotal_def length_generateInvoice
  by (simp_all add: generateInvoice_def Let_def drawLineItems_eq nth_append nth_Cons')

lemma row_amount_in_lineItemRows:
  "k < length items \<Longrightarrow>
     drawText (''$'' @ toFixed2 (numTimes (ofInt (quantity (items ! k))) (unitPrice (items ! k))))
       (tleft + cw ! 0 + cw ! 1 + cw ! 2 + 10) (y0 - 25 * real k) nfs Helvetica (rgb 0 0 0)
       \<in> set (lineItemRows tleft tright cw nfs y0 i items)"
proof (induction items arbitrary: y0 i k)
  case Nil
  then show ?case by simp
next
  case (Cons item items)
  show ?case
  proof (cases k)
    case 0
    then show ?thesis
      by (simp add: lineItemRow_def)
  next
    case (Suc j)
    then have "j < length items"
      using Cons.prems by simp
    from Cons.IH [OF this, of "y0 - 25" "i + 1"] show ?thesis
      by (simp add: Suc algebra_simps)
  qed
qed

text \<open>
  The grand total against the exact \<open>1.05 * subtotal\<close>: the product by 0.05 and the sum are
  each rounded once, and the double nearest to 0.05 is not 0.05, so the two differ by at
  most \<open>2^(-52)\<close> of the subtotal (and \<open>2^(-1073)\<close>, for subtotals next to zero). Up to a
  subtotal of a million that is less than \<open>10^(-9)\<close>.
\<close>

lemma grand_total_tolerance:
  assumes a: "theNumber a = Num s" and s: "\<bar>s\<bar> \<le> pow2 1023"
  shows "\<exists>g. numPlus a (numTimes a (Num 0.05)) = Num g
           \<and> \<bar>g - s * 1.05\<bar> \<le> \<bar>s\<bar> * pow2 (- 52) + pow2 (- 1073)
           \<and> (\<bar>s\<bar> \<le> 10 ^ 6 \<longrightarrow> \<bar>g - s * 1.05\<bar> \<le> 1 / 10 ^ 9)"
proof -
  obtain g where g: "numPlus a (numTimes a (Num 0.05)) = Num g"
    "\<bar>g - s * 1.05\<bar> \<le> \<bar>s\<bar> * pow2 (- 52) + pow2 (- 1073)"
    using grand_total_error [OF a s] by blast
  have "\<bar>s\<bar> \<le> 10 ^ 6 \<longrightarrow> \<bar>g - s * 1.05\<bar> \<le> 1 / 10 ^ 9"
  proof
    assume m: "\<bar>s\<bar> \<le> 10 ^ 6"
    then have m': "\<bar>s\<bar> \<le> 1000000"
      by simp
    have p1: "pow2 (- 1073) \<le> pow2 (- 52)"
      by simp
    have p2: "pow2 (- 52) = 1 / 4503599627370496"
      by (simp add: pow2_def)
    have "\<bar>g - s * 1.05\<bar> \<le> \<bar>s\<bar> * pow2 (- 52) + pow2 (- 52)"
      using g(2) p1 by linarith
    then have "\<bar>g - s * 1.05\<bar> \<le> \<bar>s\<bar> * (1 / 4503599627370496) + 1 / 4503599627370496"
      unfolding p2 .
    then have "\<bar>g - s * 1.05\<bar> \<le> 1 / 1000000000"
      using m' by linarith
    then show "\<bar>g - s * 1.05\<bar> \<le> 1 / 10 ^ 9"
      by simp
  qed
  then show ?thesis
    using g by blast
qed

text \<open>
  C1, as the code has it. The subtotal drawn is the caller's \<open>totalAmount\<close> when the record
  carries one; only when it carries none is it the sum, from left to right in input order, of
  \<open>quantity * unitPrice\<close> over the line items, each product and each sum rounded as doubles
  are. The tax drawn is the product of the subtotal and 0.05, and the grand total drawn is
  the sum of the subtotal and the tax, both in double arithmetic and written by
  \<open>toFixed(2)\<close>. The grand total is a number whenever the subtotal is one of size at most
  \<open>2^1023\<close>, and it is then within \<open>2^(-52) * |subtotal| + 2^(-1073)\<close> of \<open>1.05 * subtotal\<close>,
  which is within \<open>10^(-9)\<close> when the subtotal is at most a million. The amount drawn in each
  table row is \<open>quantity * unitPrice\<close> of that row, whatever \<open>totalAmount\<close> is. The three
  totals are the drawing calls number 18, 16 and 13 from the end of the page.
\<close>

theorem rendered_totals:
  fixes rt :: runtime and d :: InvoiceData
  defines "page \<equiv> snd (generateInvoice rt d)"
  defines "N \<equiv> length (lineItems d)"
  defines "y \<equiv> 841.89 - 280 - 45 - 25 * real (length (lineItems d)) - 5"
  defines "itemSum \<equiv>
    foldl (\<lambda>sum item. numPlus sum (numTimes (ofInt (quantity item)) (unitPrice item)))
      (Num 0) (lineItems d)"
  defines "subtotal \<equiv> (case totalAmount d of None \<Rightarrow> itemSum | Some v \<Rightarrow> v)"
  defines "taxAmount \<equiv> numTimes subtotal (Num 0.05)"
  defines "grandTotal \<equiv> numPlus subtotal taxAmount"
  shows "page ! (length page - 18) =
           drawText (''$'' @ toFixed2 subtotal) 490 y 10 Helvetica (rgb 0.2 0.2 0.2)
       \<and> page ! (length page - 16) =
           drawText (''$'' @ toFixed2 taxAmount) 490 (y - 20) 10 Helvetica (rgb 0.2 0.2 0.2)
       \<and> page ! (length page - 13) =
           drawText (''$'' @ toFixed2 grandTotal) 490 (y - 40) 12 HelveticaBold (rgb 1 1 1)
       \<and> (totalAmount d = None \<longrightarrow> subtotal = itemSum)
       \<and> (\<forall>v. totalAmount d = Some v \<longrightarrow> subtotal = v)
       \<and> (\<forall>s. theNumber subtotal = Num s \<and> \<bar>s\<bar> \<le> pow2 1023 \<longrightarrow>
              (\<exists>g. grandTotal = Num g
                 \<and> \<bar>g - s * 1.05\<bar> \<le> \<bar>s\<bar> * pow2 (- 52) + pow2 (- 1073)
                 \<and> (\<bar>s\<bar> \<le> 10 ^ 6 \<longrightarrow> \<bar>g - s * 1.05\<bar> \<le> 1 / 10 ^ 9)))
       \<and> (\<forall>k<N. drawText (''$'' @ toFixed2 (numTimes (ofInt (quantity (lineItems d ! k)))
                                              (unitPrice (lineItems d ! k))))
                     490 (841.89 - 280 - 45 - 25 * real k) 10 Helvetica (rgb 0 0 0)
                   \<in> set page)"
proof -
  have t: "page ! (length page - 18) =
           drawText (''$'' @ toFixed2 subtotal) 490 y 10 Helvetica (rgb 0.2 0.2 0.2)"
    "page ! (length page - 16) =
           drawText (''$'' @ toFixed2 taxAmount) 490 (y - 20) 10 Helvetica (rgb 0.2 0.2 0.2)"
    "page ! (length page - 13) =
           drawText (''$'' @ toFixed2 grandTotal) 490 (y - 40) 12 HelveticaBold (rgb 1 1 1)"
    unfolding page_def y_def grandTotal_def taxAmount_def subtotal_def itemSum_def
    by (rule totals_calls)+
  have s: "(totalAmount d = None \<longrightarrow> subtotal = itemSum)
      \<and> (\<forall>v. totalAmount d = Some v \<longrightarrow> subtotal = v)"
    by (simp add: subtotal_def)
  have e: "\<forall>s. theNumber subtotal = Num s \<and> \<bar>s\<bar> \<le> pow2 1023 \<longrightarrow>
              (\<exists>g. grandTotal = Num g
                 \<and> \<bar>g - s * 1.05\<bar> \<le> \<bar>s\<bar> * pow2 (- 52) + pow2 (- 1073)
                 \<and> (\<bar>s\<bar> \<le> 10 ^ 6 \<longrightarrow> \<bar>g - s * 1.05\<bar> \<le> 1 / 10 ^ 9))"
    unfolding grandTotal_def taxAmount_def using grand_total_tolerance by blast
  have r: "\<forall>k<N. drawText (''$'' @ toFixed2 (numTimes (ofInt (quantity (lineItems d ! k)))
                                              (unitPrice (lineItems d ! k))))
                     490 (841.89 - 280 - 45 - 25 * real k) 10 Helvetica (rgb 0 0 0)
                   \<in> set page"
  proof (intro allI impI)
    fix k
    assume "k < N"
    then have "k < length (lineItems d)"
      by (simp add: N_def)
    from row_amount_in_lineItemRows
      [OF this, of 50 "[280, 70, 80, 90]" "841.89 - 280 - 45" 10 "595.28 - 50" 0]
    show "drawText (''$'' @ toFixed2 (numTimes (ofInt (quantity (lineItems d ! k)))
                                       (unitPrice (lineItems d ! k))))
            490 (841.89 - 280 - 45 - 25 * real k) 10 Helvetica (rgb 0 0 0) \<in> set page"
      unfolding page_def
      by (simp add: generateInvoice_def Let_def drawLineItems_eq)
  qed
  show ?thesis
    using t s e r by blast
qed

text \<open>
  The example invoice with a \<open>totalAmount\<close> of 999 beside its single line item of
  2 times 100, and with a \<open>totalAmount\<close> of 1.5, whose tax of 0.075 and total of 1.575 are
  not doubles.
\<close>

definition exampleInvoice_total :: InvoiceData where
  "exampleInvoice_total = exampleInvoice\<lparr>totalAmount := Some (Num 999)\<rparr>"

definition exampleInvoice_small :: InvoiceData where
  "exampleInvoice_small = exampleInvoice\<lparr>totalAmount := Some (Num 1.5)\<rparr>"

lemma example_rows_length:
  "length (lineItemRows 50 (595.28 - 50) [280, 70, 80, 90] 10 (841.89 - 280 - 45) 0
             (lineItems exampleInvoice)) = 5"
  by (simp add: exampleInvoice_def lineItemRow_def)

lemma example_page_length:
  "length (snd (generateInvoice rt exampleInvoice)) = 49"
  "length (snd (generateInvoice rt exampleInvoice_total)) = 49"
  "length (snd (generateInvoice rt exampleInvoice_small)) = 49"
  unfolding length_generateInvoice exampleInvoice_total_def exampleInvoice_small_def
  using example_rows_length
  by (simp_all add: example_company_lines example_client_lines)

lemma example_fields:
  "totalAmount exampleInvoice = None"
  "totalAmount exampleInvoice_total = Some (Num 999)"
  "totalAmount exampleInvoice_small = Some (Num 1.5)"
  "lineItems exampleInvoice =
     [\<lparr>description = ''Consulting'', quantity = 2, unitPrice = Num 100\<rparr>]"
  "lineItems exampleInvoice_total = lineItems exampleInvoice"
  "lineItems exampleInvoice_small = lineItems exampleInvoice"
  by (simp_all add: exampleInvoice_total_def exampleInvoice_small_def exampleInvoice_def)

lemma example_itemSum:
  "foldl (\<lambda>sum item. numPlus sum (numTimes (ofInt (quantity item)) (unitPrice item)))
     (Num 0) (lineItems exampleInvoice) = Num 200"
proof -
  have "foldl (\<lambda>sum item. numPlus sum (numTimes (ofInt (quantity item)) (unitPrice item)))
     (Num 0) (lineItems exampleInvoice) = numPlus (Num 0) (numTimes (ofInt 2) (Num 100))"
    by (simp add: example_fields)
  also have "\<dots> = Num 200"
    by (simp add: ofInt_def number_eval)
  finally show ?thesis .
qed

lemma example_row_amount:
  "toFixed2 (numTimes (ofInt (quantity (lineItems exampleInvoice ! 0)))
               (unitPrice (lineItems exampleInvoice ! 0))) = ''200.00''"
proof -
  have "toFixed2 (numTimes (ofInt (quantity (lineItems exampleInvoice ! 0)))
               (unitPrice (lineItems exampleInvoice ! 0))) = toFixed2 (numTimes (ofInt 2) (Num 100))"
    by (simp add: example_fields)
  also have "\<dots> = ''200.00''"
    by (simp add: ofInt_def toFixed2_eval number_eval)
  finally show ?thesis .
qed

lemma example_amounts_200:
  "toFixed2 (Num 200) = ''200.00''"
  "toFixed2 (numTimes (Num 200) (Num 0.05)) = ''10.00''"
  "toFixed2 (numPlus (Num 200) (numTimes (Num 200) (Num 0.05))) = ''210.00''"
  by (simp_all add: toFixed2_eval number_eval)

lemma example_amounts_999:
  "toFixed2 (Num 999) = ''999.00''"
  "toFixed2 (numTimes (Num 999) (Num 0.05)) = ''49.95''"
  "toFixed2 (numPlus (Num 999) (numTimes (Num 999) (Num 0.05))) = ''1048.95''"
  "theNumber (Num 999) = Num 999"
  by (simp_all add: toFixed2_eval number_eval)

lemma example_amounts_small:
  "toFixed2 (Num 1.5) = ''1.50''"
  "toFixed2 (numTimes (Num 1.5) (Num 0.05)) = ''0.08''"
  "toFixed2 (numPlus (Num 1.5) (numTimes (Num 1.5) (Num 0.05))) = ''1.57''"
  by (simp_all add: toFixed2_eval number_eval)

theorem rendered_totals_witness:
  "totalAmount exampleInvoice_total = Some (Num 999)
   \<and> snd (generateInvoice exampleRuntime exampleInvoice_total) ! 31 =
       drawText ''$999.00'' 490 (841.89 - 280 - 45 - 25 - 5) 10 Helvetica (rgb 0.2 0.2 0.2)
   \<and> snd (generateInvoice exampleRuntime exampleInvoice_total) ! 33 =
       drawText ''$49.95'' 490 (841.89 - 280 - 45 - 25 - 5 - 20) 10 Helvetica (rgb 0.2 0.2 0.2)
   \<and> snd (generateInvoice exampleRuntime exampleInvoice_total) ! 36 =
       drawText ''$1048.95'' 490 (841.89 - 280 - 45 - 25 - 5 - 40) 12 HelveticaBold (rgb 1 1 1)
   \<and> (\<exists>g. numPlus (Num 999) (numTimes (Num 999) (Num 0.05)) = Num g
          \<and> \<bar>g - 999 * 1.05\<bar> \<le> 1 / 10 ^ 9)
   \<and> drawText ''$200.00'' 490 (841.89 - 280 - 45) 10 Helvetica (rgb 0 0 0)
       \<in> set (snd (generateInvoice exampleRuntime exampleInvoice_total))
   \<and> totalAmount exampleInvoice = None
   \<and> snd (generateInvoice exampleRuntime exampleInvoice) ! 31 =
       drawText ''$200.00'' 490 (841.89 - 280 - 45 - 25 - 5) 10 Helvetica (rgb 0.2 0.2 0.2)
   \<and> snd (generateInvoice exampleRuntime exampleInvoice) ! 33 =
       drawText ''$10.00'' 490 (841.89 - 280 - 45 - 25 - 5 - 20) 10 Helvetica (rgb 0.2 0.2 0.2)
   \<and> snd (generateInvoice exampleRuntime exampleInvoice) ! 36 =
       drawText ''$210.00'' 490 (841.89 - 280 - 45 - 25 - 5 - 40) 12 HelveticaBold (rgb 1 1 1)
   \<and> totalAmount exampleInvoice_small = Some (Num 1.5)
   \<and> snd (generateInvoice exampleRuntime exampleInvoice_small) ! 31 =
       drawText ''$1.50'' 490 (841.89 - 280 - 45 - 25 - 5) 10 Helvetica (rgb 0.2 0.2 0.2)
   \<and> snd (generateInvoice exampleRuntime exampleInvoice_small) ! 33 =
       drawText ''$0.08'' 490 (841.89 - 280 - 45 - 25 - 5 - 20) 10 Helvetica (rgb 0.2 0.2 0.2)
   \<and> snd (generateInvoice exampleRuntime exampleInvoice_small) ! 36 =
       drawText ''$1.57'' 490 (841.89 - 280 - 45 - 25 - 5 - 40) 12 HelveticaBold (rgb 1 1 1)"
proof -
  note f = example_fields
  note t = rendered_totals [where rt = exampleRuntime and d = exampleInvoice_total]
  note u = rendered_totals [where rt = exampleRuntime and d = exampleInvoice]
  note w = rendered_totals [where rt = exampleRuntime and d = exampleInvoice_small]
  have t1: "snd (generateInvoice exampleRuntime exampleInvoice_total) ! 31 =
       drawText (''$'' @ toFixed2 (Num 999)) 490 (841.89 - 280 - 45 - 25 - 5) 10 Helvetica
         (rgb 0.2 0.2 0.2)"
    using t [THEN conjunct1] by (simp add: f example_page_length)
  have t2: "snd (generateInvoice exampleRuntime exampleInvoice_total) ! 33 =
       drawText (''$'' @ toFixed2 (numTimes (Num 999) (Num 0.05))) 490
         (841.89 - 280 - 45 - 25 - 5 - 20) 10 Helvetica (rgb 0.2 0.2 0.2)"
    using t [THEN conjunct2, THEN conjunct1] by (simp add: f example_page_length)
  have t3: "snd (generateInvoice exampleRuntime exampleInvoice_total) ! 36 =
       drawText (''$'' @ toFixed2 (numPlus (Num 999) (numTimes (Num 999) (Num 0.05)))) 490
         (841.89 - 280 - 45 - 25 - 5 - 40) 12 HelveticaBold (rgb 1 1 1)"
    using t [THEN conjunct2, THEN conjunct2, THEN conjunct1] by (simp add: f example_page_length)
  have "\<bar>999::real\<bar> \<le> pow2 1023" and m: "\<bar>999::real\<bar> \<le> 10 ^ 6"
    by (simp_all add: pow2_def)
  then have "\<exists>g. numPlus (Num 999) (numTimes (Num 999) (Num 0.05)) = Num g
               \<and> \<bar>g - 999 * 1.05\<bar> \<le> \<bar>999\<bar> * pow2 (- 52) + pow2 (- 1073)
               \<and> (\<bar>999::real\<bar> \<le> 10 ^ 6 \<longrightarrow> \<bar>g - 999 * 1.05\<bar> \<le> 1 / 10 ^ 9)"
    using t [THEN conjunct2, THEN conjunct2, THEN conjunct2, THEN conjunct2, THEN conjunct2,
        THEN conjunct1, THEN spec, of 999] example_amounts_999(4)
    by (simp only: f option.case simp_thms)
  then have t4: "\<exists>g. numPlus (Num 999) (numTimes (Num 999) (Num 0.05)) = Num g
               \<and> \<bar>g - 999 * 1.05\<bar> \<le> 1 / 10 ^ 9"
    using m by blast
  have "drawText (''$'' @ toFixed2 (numTimes (ofInt (quantity (lineItems exampleInvoice ! 0)))
                                       (unitPrice (lineItems exampleInvoice ! 0))))
          490 (841.89 - 280 - 45 - 25 * real (0::nat)) 10 Helvetica (rgb 0 0 0)
        \<in> set (snd (generateInvoice exampleRuntime exampleInvoice_total))"
    using t [THEN conjunct2, THEN conjunct2, THEN conjunct2, THEN conjunct2, THEN conjunct2,
        THEN conjunct2, THEN spec, of 0]
    by (simp only: f list.size)
  then have t5: "drawText ''$200.00'' 490 (841.89 - 280 - 45) 10 Helvetica (rgb 0 0 0)
        \<in> set (snd (generateInvoice exampleRuntime exampleInvoice_total))"
    unfolding example_row_amount by simp
  have u1: "snd (generateInvoice exampleRuntime exampleInvoice) ! 31 =
       drawText (''$'' @ toFixed2 (Num 200)) 490 (841.89 - 280 - 45 - 25 - 5) 10 Helvetica
         (rgb 0.2 0.2 0.2)"
    using u [THEN conjunct1] unfolding example_itemSum
    by (simp add: f(1) f(4) example_page_length)
  have u2: "snd (generateInvoice exampleRuntime exampleInvoice) ! 33 =
       drawText (''$'' @ toFixed2 (numTimes (Num 200) (Num 0.05))) 490
         (841.89 - 280 - 45 - 25 - 5 - 20) 10 Helvetica (rgb 0.2 0.2 0.2)"
    using u [THEN conjunct2, THEN conjunct1] unfolding example_itemSum
    by (simp add: f(1) f(4) example_page_length)
  have u3: "snd (generateInvoice exampleRuntime exampleInvoice) ! 36 =
       drawText (''$'' @ toFixed2 (numPlus (Num 200) (numTimes (Num 200) (Num 0.05)))) 490
         (841.89 - 280 - 45 - 25 - 5 - 40) 12 HelveticaBold (rgb 1 1 1)"
    using u [THEN conjunct2, THEN conjunct2, THEN conjunct1] unfolding example_itemSum
    by (simp add: f(1) f(4) example_page_length)
  have w1: "snd (generateInvoice exampleRuntime exampleInvoice_small) ! 31 =
       drawText (''$'' @ toFixed2 (Num 1.5)) 490 (841.89 - 280 - 45 - 25 - 5) 10 Helvetica
         (rgb 0.2 0.2 0.2)"
    using w [THEN conjunct1] by (simp add: f example_page_length)
  have w2: "snd (generateInvoice exampleRuntime exampleInvoice_small) ! 33 =
       drawText (''$'' @ toFixed2 (numTimes (Num 1.5) (Num 0.05))) 490
         (841.89 - 280 - 45 - 25 - 5 - 20) 10 Helvetica (rgb 0.2 0.2 0.2)"
    using w [THEN conjunct2, THEN conjunct1] by (simp add: f example_page_length)
  have w3: "snd (generateInvoice exampleRuntime exampleInvoice_small) ! 36 =
       drawText (''$'' @ toFixed2 (numPlus (Num 1.5) (numTimes (Num 1.5) (Num 0.05)))) 490
         (841.89 - 280 - 45 - 25 - 5 - 40) 12 HelveticaBold (rgb 1 1 1)"
    using w [THEN conjunct2, THEN conjunct2, THEN conjunct1] by (simp add: f example_page_length)
  note a = t1 [unfolded example_amounts_999] t2 [unfolded example_amounts_999]
    t3 [unfolded example_amounts_999]
  note b = u1 [unfolded example_amounts_200] u2 [unfolded example_amounts_200]
    u3 [unfolded example_amounts_200]
  note c = w1 [unfolded example_amounts_small] w2 [unfolded example_amounts_small]
    w3 [unfolded example_amounts_small]
  show ?thesis
    using f(1,2,3) a b c t4 t5 by simp
qed

text \<open>
  The claim as the specification states it fails on the invoice with a \<open>totalAmount\<close> of 999:
  its line item sums to 200, and the subtotal, tax and grand total drawn are 999.00, 49.95
  and 1048.95. And a tolerance of \<open>10^(-9)\<close> does not hold for every subtotal: for the double
  \<open>10^15 + 1\<close> the grand total is \<open>1050000000000001\<close>, which is 0.05 away from 1.05 times
  the subtotal.
\<close>

theorem rendered_totals_counterexample:
  "foldl (\<lambda>sum item. numPlus sum (numTimes (ofInt (quantity item)) (unitPrice item))) (Num 0)
     (lineItems exampleInvoice_total) = Num 200
   \<and> snd (generateInvoice exampleRuntime exampleInvoice_total) ! 31 =
       drawText ''$999.00'' 490 (841.89 - 280 - 45 - 25 - 5) 10 Helvetica (rgb 0.2 0.2 0.2)
   \<and> snd (generateInvoice exampleRuntime exampleInvoice_total) ! 31 \<noteq>
       drawText ''$200.00'' 490 (841.89 - 280 - 45 - 25 - 5) 10 Helvetica (rgb 0.2 0.2 0.2)
   \<and> snd (generateInvoice exampleRuntime exampleInvoice_total) ! 36 =
       drawText ''$1048.95'' 490 (841.89 - 280 - 45 - 25 - 5 - 40) 12 HelveticaBold (rgb 1 1 1)
   \<and> theNumber (Num (10 ^ 15 + 1)) = Num (10 ^ 15 + 1)
   \<and> numPlus (Num (10 ^ 15 + 1)) (numTimes (Num (10 ^ 15 + 1)) (Num 0.05)) =
       Num 1050000000000001
   \<and> \<bar>1050000000000001 - (10 ^ 15 + 1) * 1.05\<bar> = (1 / 20 :: real)"
proof -
  note f = example_fields
  have s: "foldl (\<lambda>sum item. numPlus sum (numTimes (ofInt (quantity item)) (unitPrice item)))
     (Num 0) (lineItems exampleInvoice_total) = Num 200"
    unfolding f(5) by (rule example_itemSum)
  have "snd (generateInvoice exampleRuntime exampleInvoice_total) ! 31 =
       drawText (''$'' @ toFixed2 (Num 999)) 490 (841.89 - 280 - 45 - 25 - 5) 10 Helvetica
         (rgb 0.2 0.2 0.2)"
    using totals_calls(1) [of exampleRuntime exampleInvoice_total]
    by (simp add: f example_page_length)
  note a = this [unfolded example_amounts_999]
  have "snd (generateInvoice exampleRuntime exampleInvoice_total) ! 36 =
       drawText (''$'' @ toFixed2 (numPlus (Num 999) (numTimes (Num 999) (Num 0.05)))) 490
         (841.89 - 280 - 45 - 25 - 5 - 40) 12 HelveticaBold (rgb 1 1 1)"
    using totals_calls(3) [of exampleRuntime exampleInvoice_total]
    by (simp add: f example_page_length)
  note b = this [unfolded example_amounts_999]
  have n: "theNumber (Num (10 ^ 15 + 1)) = Num (10 ^ 15 + 1)"
    "numPlus (Num (10 ^ 15 + 1)) (numTimes (Num (10 ^ 15 + 1)) (Num 0.05)) =
       Num 1050000000000001"
    by (simp_all add: number_eval)
  have d: "\<bar>1050000000000001 - (10 ^ 15 + 1) * 1.05\<bar> = (1 / 20 :: real)"
    by simp
  show ?thesis
    using s a b n d by simp
qed

subsection \<open>What the call does to its argument\<close>

lemma generateInvoice_record:
  "fst (generateInvoice rt d) =
     (if totalAmount d = None
      then d\<lparr>totalAmount :=
             Some (foldl (\<lambda>sum item.
                            numPlus sum (numTimes (ofInt (quantity item)) (unitPrice item)))
                     (Num 0) (lineItems d))\<rparr>
      else d)"
  by (simp add: generateInvoice_def Let_def drawLineItems_eq)

text \<open>
  C7, as the code has it. The call leaves every field of the record but \<open>totalAmount\<close> as it
  was, the line items among them. A record that carries a \<open>totalAmount\<close> is left as it was.
  A record that carries none leaves the call with \<open>totalAmount\<close> set to the sum of
  \<open>quantity * unitPrice\<close> over its line items, and the caller keeps that record. The call
  depends on nothing but the runtime and the record, and leaves nothing else behind.
\<close>

theorem render_writes_only_totalAmount:
  fixes rt :: runtime and d :: InvoiceData
  defines "after \<equiv> fst (generateInvoice rt d)"
  defines "itemSum \<equiv>
    foldl (\<lambda>sum item. numPlus sum (numTimes (ofInt (quantity item)) (unitPrice item)))
      (Num 0) (lineItems d)"
  shows "after = d\<lparr>totalAmount := Some (case totalAmount d of None \<Rightarrow> itemSum | Some v \<Rightarrow> v)\<rparr>
       \<and> lineItems after = lineItems d
       \<and> (totalAmount d \<noteq> None \<longrightarrow> after = d)
       \<and> (totalAmount d = None \<longrightarrow> totalAmount after = Some itemSum)"
  unfolding after_def itemSum_def generateInvoice_record
  by (cases "totalAmount d") simp_all

theorem render_writes_only_totalAmount_witness:
  "totalAmount exampleInvoice_total \<noteq> None
   \<and> fst (generateInvoice exampleRuntime exampleInvoice_total) = exampleInvoice_total
   \<and> totalAmount exampleInvoice = None
   \<and> totalAmount (fst (generateInvoice exampleRuntime exampleInvoice)) = Some (Num 200)
   \<and> lineItems (fst (generateInvoice exampleRuntime exampleInvoice)) = lineItems exampleInvoice"
proof -
  note f = example_fields
  have a: "fst (generateInvoice exampleRuntime exampleInvoice_total) = exampleInvoice_total"
    using render_writes_only_totalAmount [where rt = exampleRuntime and d = exampleInvoice_total]
    by (simp add: f(2))
  note t = render_writes_only_totalAmount [where rt = exampleRuntime and d = exampleInvoice]
  have b: "totalAmount (fst (generateInvoice exampleRuntime exampleInvoice)) = Some (Num 200)"
    using t [THEN conjunct2, THEN conjunct2, THEN conjunct2] f(1)
    unfolding example_itemSum by blast
  have c: "lineItems (fst (generateInvoice exampleRuntime exampleInvoice)) =
      lineItems exampleInvoice"
    using t [THEN conjunct2, THEN conjunct1] .
  show ?thesis
    using f(1,2) a b c by simp
qed

text \<open>
  The claim as the specification states it fails on the example invoice, which carries no
  \<open>totalAmount\<close>: after the call the record carries 200.
\<close>

theorem render_writes_only_totalAmount_counterexample:
  "totalAmount exampleInvoice = None
   \<and> totalAmount (fst (generateInvoice exampleRuntime exampleInvoice)) = Some (Num 200)
   \<and> fst (generateInvoice exampleRuntime exampleInvoice) \<noteq> exampleInvoice"
proof -
  note f = example_fields
  have "totalAmount (fst (generateInvoice exampleRuntime exampleInvoice)) =
      Some (foldl (\<lambda>sum item. numPlus sum (numTimes (ofInt (quantity item)) (unitPrice item)))
              (Num 0) (lineItems exampleInvoice))"
    unfolding generateInvoice_record by (simp add: f(1))
  then have t: "totalAmount (fst (generateInvoice exampleRuntime exampleInvoice)) =
      Some (Num 200)"
    unfolding example_itemSum .
  then have "fst (generateInvoice exampleRuntime exampleInvoice) \<noteq> exampleInvoice"
    using f(1) by auto
  then show ?thesis
    using f(1) t by simp
qed

subsection \<open>What the page depends on\<close>

lemmas date_eval =
  formatDate_def Date_parse_def parseISO_def parseDatePart_def parseTimePart_def
  parseOffset_def fourDigits_def threeDigits_def twoDigits_def digitVal_def expect_def
  MakeDate_def MakeDay_def MakeTime_def DaysBeforeMonth_def DayFromYear_def DaysInYear_def
  msPerDay_def getMonth_def getDate_def getFullYear_def LocalTime_def UTC_def MonthFromTime_def
  DateFromTime_def DayWithinYear_def InLeapYear_def YearFromTime_def YearFromDay_def
  yearUpFrom.simps Day_def monthName_def monthNames_def toString_def Let_def

lemma formatDate_runtime:
  assumes "localTZA rt1 = localTZA rt2" and "legacyParse rt1 = legacyParse rt2"
  shows "formatDate rt1 s = formatDate rt2 s"
  unfolding formatDate_def Date_parse_def parseISO_def getMonth_def getDate_def
    getFullYear_def LocalTime_def UTC_def assms
  by (rule refl)

lemma local_date_of_day:
  assumes "Day (LocalTime rt1 t1) = Day (LocalTime rt2 t2)"
  shows "getMonth rt1 t1 = getMonth rt2 t2"
    and "getDate rt1 t1 = getDate rt2 t2"
    and "getFullYear rt1 t1 = getFullYear rt2 t2"
  unfolding getMonth_def getDate_def getFullYear_def MonthFromTime_def DateFromTime_def
    DayWithinYear_def InLeapYear_def YearFromTime_def assms
  by (rule refl)+

lemma generateInvoice_runtime:
  assumes "localTZA rt1 = localTZA rt2" and "legacyParse rt1 = legacyParse rt2"
    and "Day (LocalTime rt1 (clock rt1)) = Day (LocalTime rt2 (clock rt2))"
  shows "generateInvoice rt1 d = generateInvoice rt2 d"
  unfolding generateInvoice_def Let_def formatDate_runtime [OF assms(1,2)]
    local_date_of_day [OF assms(3)]
  by (rule refl)

lemma generateInvoice_again:
  "generateInvoice rt (fst (generateInvoice rt d)) = generateInvoice rt d"
proof (cases "totalAmount d")
  case None
  then show ?thesis
    unfolding generateInvoice_record
    by (simp add: generateInvoice_def Let_def)
next
  case (Some v)
  then show ?thesis
    unfolding generateInvoice_record by simp
qed

lemma generation_line:
  fixes rt :: runtime and d :: InvoiceData
  defines "page \<equiv> snd (generateInvoice rt d)"
  shows "page ! (length page - 2) =
           drawText (''Invoice generated on '' @ monthName (getMonth rt (clock rt)) @ '' ''
                     @ toString (getDate rt (clock rt)) @ '', ''
                     @ toString (getFullYear rt (clock rt)))
             (595.28 / 2 - 100) 50 8 Helvetica (rgb 0.4 0.4 0.4)"
  unfolding page_def length_generateInvoice
  by (simp add: generateInvoice_def Let_def drawLineItems_eq nth_append nth_Cons')

text \<open>
  C2, as the code has it. The page is a function of the record and of the runtime: of its
  time zone and date parser, through \<open>formatDate\<close>, and of the calendar day its clock shows,
  through the line \<open>Invoice generated on ...\<close> of the footer. Two runs on the same record in
  runtimes that agree on these give the same record and the same page, call for call; and a
  second run on the record as the first run left it gives the same result again.
\<close>

theorem render_determinism:
  assumes "localTZA rt1 = localTZA rt2"
    and "legacyParse rt1 = legacyParse rt2"
    and "Day (LocalTime rt1 (clock rt1)) = Day (LocalTime rt2 (clock rt2))"
  shows "generateInvoice rt1 d = generateInvoice rt2 d
       \<and> generateInvoice rt2 (fst (generateInvoice rt1 d)) = generateInvoice rt1 d"
proof -
  have a: "generateInvoice rt1 d = generateInvoice rt2 d"
    using assms by (rule generateInvoice_runtime)
  have "generateInvoice rt2 (fst (generateInvoice rt2 d)) = generateInvoice rt2 d"
    by (rule generateInvoice_again)
  then show ?thesis
    using a by simp
qed

text \<open>The example runtime one hour later, and one day later.\<close>

definition exampleRuntime_hour :: runtime where
  "exampleRuntime_hour = exampleRuntime\<lparr>clock := 1704416400000\<rparr>"

definition exampleRuntime_day :: runtime where
  "exampleRuntime_day = exampleRuntime\<lparr>clock := 1704499200000\<rparr>"

theorem render_determinism_witness:
  "localTZA exampleRuntime = localTZA exampleRuntime_hour
   \<and> Day (LocalTime exampleRuntime (clock exampleRuntime)) =
       Day (LocalTime exampleRuntime_hour (clock exampleRuntime_hour))
   \<and> clock exampleRuntime \<noteq> clock exampleRuntime_hour
   \<and> generateInvoice exampleRuntime exampleInvoice =
       generateInvoice exampleRuntime_hour exampleInvoice
   \<and> generateInvoice exampleRuntime_hour (fst (generateInvoice exampleRuntime exampleInvoice)) =
       generateInvoice exampleRuntime exampleInvoice"
proof -
  have h: "localTZA exampleRuntime = localTZA exampleRuntime_hour"
    "legacyParse exampleRuntime = legacyParse exampleRuntime_hour"
    "Day (LocalTime exampleRuntime (clock exampleRuntime)) =
       Day (LocalTime exampleRuntime_hour (clock exampleRuntime_hour))"
    "clock exampleRuntime \<noteq> clock exampleRuntime_hour"
    by (simp_all add: exampleRuntime_hour_def exampleRuntime_def Day_def LocalTime_def
        msPerDay_def)
  show ?thesis
    using render_determinism [OF h(1,2,3), of exampleInvoice] h(1,3,4) by blast
qed

text \<open>
  The claim as the specification states it fails: the same record rendered with the clock
  one day later has another footer line, so the two pages differ.
\<close>

theorem render_determinism_counterexample:
  "snd (generateInvoice exampleRuntime exampleInvoice) ! 47 =
     drawText ''Invoice generated on January 5, 2024'' (595.28 / 2 - 100) 50 8 Helvetica
       (rgb 0.4 0.4 0.4)
   \<and> snd (generateInvoice exampleRuntime_day exampleInvoice) ! 47 =
     drawText ''Invoice generated on January 6, 2024'' (595.28 / 2 - 100) 50 8 Helvetica
       (rgb 0.4 0.4 0.4)
   \<and> generateInvoice exampleRuntime exampleInvoice \<noteq>
       generateInvoice exampleRuntime_day exampleInvoice"
proof -
  have a: "snd (generateInvoice exampleRuntime exampleInvoice) ! 47 =
     drawText ''Invoice generated on January 5, 2024'' (595.28 / 2 - 100) 50 8 Helvetica
       (rgb 0.4 0.4 0.4)"
    using generation_line [of exampleRuntime exampleInvoice]
    by (simp add: example_page_length exampleRuntime_def date_eval)
  have b: "snd (generateInvoice exampleRuntime_day exampleInvoice) ! 47 =
     drawText ''Invoice generated on January 6, 2024'' (595.28 / 2 - 100) 50 8 Helvetica
       (rgb 0.4 0.4 0.4)"
    using generation_line [of exampleRuntime_day exampleInvoice]
    by (simp add: example_page_length exampleRuntime_day_def exampleRuntime_def date_eval)
  have "snd (generateInvoice exampleRuntime exampleInvoice) ! 47 \<noteq>
      snd (generateInvoice exampleRuntime_day exampleInvoice) ! 47"
    unfolding a b by simp
  then have "generateInvoice exampleRuntime exampleInvoice \<noteq>
      generateInvoice exampleRuntime_day exampleInvoice"
    by auto
  then show ?thesis
    using a b by simp
qed

subsection \<open>One more line in the company address\<close>

lemma drawAddressLines_snoc:
  "drawAddressLines y nfs (lines @ [l]) =
     drawAddressLines y nfs lines
     @ [drawText l 50 (y - real (length lines) * 15) nfs Helvetica (rgb 0 0 0)]"
  by (simp add: drawAddressLines_def enumerate_append_eq)

lemma client_block_calls:
  fixes rt :: runtime and d :: InvoiceData
  defines "n \<equiv> length (split_lines (companyAddress d))"
  defines "m \<equiv> length (split_lines (clientAddress d))"
  defines "page \<equiv> snd (generateInvoice rt d)"
  shows "page ! (12 + n) =
           drawText ''BILL TO:'' 50 (841.89 - 180) 12 HelveticaBold (rgb 0.4 0.4 0.4)"
    and "page ! (15 + n + m) =
           drawRectangle 50 (841.89 - 280 - 25) (595.28 - 50 - 50) 25 (rgb 0.2 0.2 0.2)
             (Some (rgb 0.1 0.1 0.1)) (Some 1)"
  unfolding page_def n_def m_def
  by (simp_all add: generateInvoice_def Let_def drawLineItems_eq nth_append nth_Cons')

lemma take_drop_around:
  "length L = n \<Longrightarrow> take (3 + n) (a # b # c # L @ R) = a # b # c # L"
  "length L = n \<Longrightarrow> drop (5 + n) (a # b # c # L @ e # p # R) = R"
  "length L = n \<Longrightarrow> drop (6 + n) (a # b # c # L @ x # e # p # R) = R"
  by (simp_all add: take_Cons' drop_Cons')

lemma one_more_address_line_nth:
  fixes rt :: runtime and d :: InvoiceData and l :: string
  defines "d' \<equiv> d\<lparr>companyAddress := companyAddress d @ LF # l\<rparr>"
  defines "n \<equiv> length (split_lines (companyAddress d))"
  defines "page \<equiv> snd (generateInvoice rt d)"
  defines "page' \<equiv> snd (generateInvoice rt d')"
  assumes noLF: "LF \<notin> set l"
  shows "page' ! (3 + n) =
           drawText l 50 (841.89 - 110 - real n * 15) 10 Helvetica (rgb 0 0 0)"
    and "page' ! (4 + n) =
           drawText (''Email: '' @ companyEmail d) 50 (841.89 - 110 - real n * 15 - 15)
             10 Helvetica (rgb 0 0 0)"
    and "page' ! (5 + n) =
           drawText (''Phone: '' @ companyPhone d) 50 (841.89 - 125 - real n * 15 - 15)
             10 Helvetica (rgb 0 0 0)"
    and "length page' = length page + 1"
  unfolding page_def page'_def d'_def n_def
  by (simp_all add: generateInvoice_def Let_def drawLineItems_eq
      split_lines_append_line [OF noLF] drawAddressLines_snoc nth_append nth_Cons'
      algebra_simps)

lemma one_more_address_line_rest:
  fixes rt :: runtime and d :: InvoiceData and l :: string
  defines "d' \<equiv> d\<lparr>companyAddress := companyAddress d @ LF # l\<rparr>"
  defines "n \<equiv> length (split_lines (companyAddress d))"
  defines "page \<equiv> snd (generateInvoice rt d)"
  defines "page' \<equiv> snd (generateInvoice rt d')"
  assumes noLF: "LF \<notin> set l"
  shows "take (3 + n) page' = take (3 + n) page"
    and "drop (6 + n) page' = drop (5 + n) page"
  unfolding page_def page'_def d'_def n_def
  by (cases "totalAmount d";
      simp add: generateInvoice_def Let_def drawLineItems_eq
        split_lines_append_line [OF noLF] drawAddressLines_snoc take_drop_around)+

lemma company_trailing_calls:
  fixes rt :: runtime and d :: InvoiceData
  defines "n \<equiv> length (split_lines (companyAddress d))"
  defines "page \<equiv> snd (generateInvoice rt d)"
  shows "page ! (3 + n) =
           drawText (''Email: '' @ companyEmail d) 50 (841.89 - 110 - real n * 15)
             10 Helvetica (rgb 0 0 0)"
    and "page ! (4 + n) =
           drawText (''Phone: '' @ companyPhone d) 50 (841.89 - 125 - real n * 15)
             10 Helvetica (rgb 0 0 0)"
  unfolding page_def n_def
  by (simp_all add: generateInvoice_def Let_def drawLineItems_eq nth_append nth_Cons')

text \<open>
  C5, as the code has it. Every block is drawn at a fixed height of the page; only the
  email and phone lines of the company block follow the number of address lines. So one
  more line in the company address adds the drawing call of that line, moves the company
  email and the company phone down by 15, and leaves every other drawing call as it was:
  the calls before the new line, and all calls after the phone line (invoice number, dates,
  status badge, divider, client block, table, totals, payment information, footer).
\<close>

theorem one_more_company_address_line:
  fixes rt :: runtime and d :: InvoiceData and l :: string
  defines "d' \<equiv> d\<lparr>companyAddress := companyAddress d @ LF # l\<rparr>"
  defines "n \<equiv> length (split_lines (companyAddress d))"
  defines "page \<equiv> snd (generateInvoice rt d)"
  defines "page' \<equiv> snd (generateInvoice rt d')"
  assumes noLF: "LF \<notin> set l"
  shows "split_lines (companyAddress d') = split_lines (companyAddress d) @ [l]
       \<and> length page' = length page + 1
       \<and> take (3 + n) page' = take (3 + n) page
       \<and> page' ! (3 + n) =
           drawText l 50 (841.89 - 110 - real n * 15) 10 Helvetica (rgb 0 0 0)
       \<and> page ! (3 + n) =
           drawText (''Email: '' @ companyEmail d) 50 (841.89 - 110 - real n * 15)
             10 Helvetica (rgb 0 0 0)
       \<and> page' ! (4 + n) =
           drawText (''Email: '' @ companyEmail d) 50 (841.89 - 110 - real n * 15 - 15)
             10 Helvetica (rgb 0 0 0)
       \<and> page ! (4 + n) =
           drawText (''Phone: '' @ companyPhone d) 50 (841.89 - 125 - real n * 15)
             10 Helvetica (rgb 0 0 0)
       \<and> page' ! (5 + n) =
           drawText (''Phone: '' @ companyPhone d) 50 (841.89 - 125 - real n * 15 - 15)
             10 Helvetica (rgb 0 0 0)
       \<and> drop (6 + n) page' = drop (5 + n) page"
proof -
  have s: "split_lines (companyAddress d') = split_lines (companyAddress d) @ [l]"
    unfolding d'_def using noLF by (simp add: split_lines_append_line)
  note a = one_more_address_line_nth [OF noLF, where rt = rt and d = d, folded d'_def n_def page_def page'_def]
  note b = one_more_address_line_rest [OF noLF, where rt = rt and d = d, folded d'_def n_def page_def page'_def]
  note c = company_trailing_calls [where rt = rt and d = d, folded n_def page_def]
  show ?thesis
    using s a b c by blast
qed

text \<open>The example invoice with a fourth line in the company address.\<close>

definition exampleInvoice_tall :: InvoiceData where
  "exampleInvoice_tall =
     exampleInvoice\<lparr>companyAddress := companyAddress exampleInvoice @ LF # ''Floor 4''\<rparr>"

lemma example_tall_lines:
  "split_lines (companyAddress exampleInvoice_tall) =
     [''1 Main St'', ''Suite 2'', ''Springfield'', ''Floor 4'']"
  by (simp add: exampleInvoice_tall_def exampleInvoice_def LF_def)

theorem one_more_company_address_line_witness:
  "LF \<notin> set ''Floor 4''
   \<and> snd (generateInvoice exampleRuntime exampleInvoice_tall) ! 6 =
       drawText ''Floor 4'' 50 (841.89 - 110 - 3 * 15) 10 Helvetica (rgb 0 0 0)
   \<and> snd (generateInvoice exampleRuntime exampleInvoice) ! 6 =
       drawText ''Email: billing@acme.test'' 50 (841.89 - 110 - 3 * 15) 10 Helvetica (rgb 0 0 0)
   \<and> snd (generateInvoice exampleRuntime exampleInvoice_tall) ! 7 =
       drawText ''Email: billing@acme.test'' 50 (841.89 - 110 - 3 * 15 - 15) 10 Helvetica
         (rgb 0 0 0)
   \<and> snd (generateInvoice exampleRuntime exampleInvoice) ! 7 =
       drawText ''Phone: 555-0100'' 50 (841.89 - 125 - 3 * 15) 10 Helvetica (rgb 0 0 0)
   \<and> snd (generateInvoice exampleRuntime exampleInvoice_tall) ! 8 =
       drawText ''Phone: 555-0100'' 50 (841.89 - 125 - 3 * 15 - 15) 10 Helvetica (rgb 0 0 0)
   \<and> drop 9 (snd (generateInvoice exampleRuntime exampleInvoice_tall)) =
       drop 8 (snd (generateInvoice exampleRuntime exampleInvoice))
   \<and> length (snd (generateInvoice exampleRuntime exampleInvoice_tall)) = 50"
proof -
  have h: "LF \<notin> set ''Floor 4''"
    by (simp add: LF_def)
  have n: "length (split_lines (companyAddress exampleInvoice)) = 3"
    by (simp add: example_company_lines)
  have f: "companyEmail exampleInvoice = ''billing@acme.test''"
    "companyPhone exampleInvoice = ''555-0100''"
    by (simp_all add: exampleInvoice_def)
  show ?thesis
    using one_more_company_address_line [OF h, where rt = exampleRuntime and d = exampleInvoice] h
    by (simp add: n f example_page_length flip: exampleInvoice_tall_def)
qed

text \<open>
  The claim as the specification states it fails: with the fourth address line the client
  block and the table are drawn where they were, at \<open>height - 180\<close> and \<open>height - 305\<close>.
\<close>

theorem one_more_company_address_line_counterexample:
  "snd (generateInvoice exampleRuntime exampleInvoice) ! 15 =
     drawText ''BILL TO:'' 50 (841.89 - 180) 12 HelveticaBold (rgb 0.4 0.4 0.4)
   \<and> snd (generateInvoice exampleRuntime exampleInvoice_tall) ! 16 =
     drawText ''BILL TO:'' 50 (841.89 - 180) 12 HelveticaBold (rgb 0.4 0.4 0.4)
   \<and> snd (generateInvoice exampleRuntime exampleInvoice) ! 20 =
     drawRectangle 50 (841.89 - 280 - 25) (595.28 - 50 - 50) 25 (rgb 0.2 0.2 0.2)
       (Some (rgb 0.1 0.1 0.1)) (Some 1)
   \<and> snd (generateInvoice exampleRuntime exampleInvoice_tall) ! 21 =
     drawRectangle 50 (841.89 - 280 - 25) (595.28 - 50 - 50) 25 (rgb 0.2 0.2 0.2)
       (Some (rgb 0.1 0.1 0.1)) (Some 1)"
proof -
  have m: "split_lines (clientAddress exampleInvoice_tall) = [''9 Side Rd'', ''Shelbyville'']"
    by (simp add: exampleInvoice_tall_def example_client_lines)
  show ?thesis
    using client_block_calls [where rt = exampleRuntime and d = exampleInvoice]
      client_block_calls [where rt = exampleRuntime and d = exampleInvoice_tall]
    by (simp add: example_company_lines example_client_lines example_tall_lines m)
qed

subsection \<open>The notes block of the second layout\<close>

lemma trim_white:
  assumes "\<forall>c\<in>set n. isWhiteSpace c"
  shows "trim n = []"
proof -
  have e: "dropWhile isWhiteSpace n = []"
    using assms by (induction n) simp_all
  show ?thesis
    unfolding trim_def e by simp
qed

lemma bold_text_notin_drawAddressLines [simp]:
  "drawText t x y s HelveticaBold c \<notin> set (drawAddressLines y0 nfs lines)"
  by (auto simp: drawAddressLines_def)

lemma text_in_lineItemRows_font:
  "drawText t x y s f c \<in> set (lineItemRows tleft tright cw nfs y0 i items) \<Longrightarrow> f = Helvetica"
  by (induction items arbitrary: y0 i) (auto simp: lineItemRow_def split: if_splits)

lemma bold_text_notin_lineItemRows [simp]:
  "drawText t x y s HelveticaBold c \<notin> set (lineItemRows tleft tright cw nfs y0 i items)"
  using text_in_lineItemRows_font by fastforce

lemma generateInvoice_actions_no_notes:
  assumes "notes' d = None \<or> (\<exists>n. notes' d = Some n \<and> (n = [] \<or> trim n = []))"
  shows "generateInvoice_actions rt d =
     [drawText ''INVOICE'' 50 (841.89 - 50) 24 HelveticaBold (rgb 0.2 0.2 0.2),
      drawText (companyName d) 50 (841.89 - 90) 12 HelveticaBold (rgb 0 0 0)]
     @ drawAddressLines (841.89 - 110) 10 (split_lines (companyAddress d))
     @ [drawText (''Email: '' @ companyEmail d) 50
          (841.89 - 110 - real (length (split_lines (companyAddress d))) * 15)
          10 Helvetica (rgb 0 0 0),
        drawText (''Phone: '' @ companyPhone d) 50
          (841.89 - 125 - real (length (split_lines (companyAddress d))) * 15)
          10 Helvetica (rgb 0 0 0),
        drawText (''Invoice #: '' @ invoiceNumber d) (595.28 - 200) (841.89 - 90)
          10 Helvetica (rgb 0 0 0),
        drawText (''Date: '' @ formatDate rt (invoiceDate d)) (595.28 - 200) (841.89 - 105)
          10 Helvetica (rgb 0 0 0),
        drawText (''Due Date: '' @ formatDate rt (dueDate d)) (595.28 - 200) (841.89 - 120)
          10 Helvetica (rgb 0 0 0),
        drawLine (50, 841.89 - 150) (595.28 - 50, 841.89 - 150) 2 (rgb 0.8 0.8 0.8),
        drawText ''BILL TO:'' 50 (841.89 - 180) 12 HelveticaBold (rgb 0.4 0.4 0.4),
        drawText (clientName d) 50 (841.89 - 200) 10 HelveticaBold (rgb 0 0 0)]
     @ drawAddressLines (841.89 - 215) 10 (split_lines (clientAddress d))
     @ [drawText (''Email: '' @ clientEmail d) 50
          (841.89 - 215 - real (length (split_lines (clientAddress d))) * 15)
          10 Helvetica (rgb 0 0 0),
        drawRectangle 50 (841.89 - 280 - 25) (595.28 - 50 - 50) 25 (rgb 0.9 0.9 0.9)
          (Some (rgb 0.8 0.8 0.8)) (Some 1),
        drawText ''Description'' 60 (841.89 - 280 - 15) 12 HelveticaBold (rgb 0.2 0.2 0.2),
        drawText ''Quantity'' 340 (841.89 - 280 - 15) 12 HelveticaBold (rgb 0.2 0.2 0.2),
        drawText ''Unit Price'' 410 (841.89 - 280 - 15) 12 HelveticaBold (rgb 0.2 0.2 0.2),
        drawText ''Amount'' 490 (841.89 - 280 - 15) 12 HelveticaBold (rgb 0.2 0.2 0.2)]
     @ lineItemRows 50 (595.28 - 50) [280, 70, 80, 90] 10 (841.89 - 280 - 45) 0 (lineItems d)
     @ [drawRectangle 400 (841.89 - 280 - 45 - 25 * real (length (lineItems d)) - 5 - 15 + 2)
          (595.28 - 50 - 400) 30 (rgb 0.95 0.95 0.95) None None,
        drawText ''Total:'' 410 (841.89 - 280 - 45 - 25 * real (length (lineItems d)) - 5)
          12 HelveticaBold (rgb 0 0 0),
        drawText (''$'' @ toFixed2 (case totalAmount d of None \<Rightarrow> Num 0 | Some v \<Rightarrow> v)) 490
          (841.89 - 280 - 45 - 25 * real (length (lineItems d)) - 5)
          12 HelveticaBold (rgb 0.2 0.2 0.2),
        drawText ''Thank you for your business!'' (595.28 / 2 - 80) 50 10 Helvetica
          (rgb 0.4 0.4 0.4)]"
  using assms
  by (auto simp: generateInvoice_actions_def Let_def drawLineItems_eq)

text \<open>
  C9. When the notes are absent, empty or made of white space only, the second layout draws
  what it draws for a record without notes: no \<open>NOTES:\<close> label is on the page, and the
  thank-you line, at its fixed height 50, is the drawing call right after the total, so no
  line of notes is drawn and no room is left for any.
\<close>

theorem blank_notes_omitted:
  fixes rt :: runtime and d :: InvoiceData
  defines "page \<equiv> generateInvoice_actions rt d"
  assumes blank: "notes' d = None \<or> (\<exists>n. notes' d = Some n \<and> (\<forall>c\<in>set n. isWhiteSpace c))"
  shows "page = generateInvoice_actions rt (d\<lparr>notes' := None\<rparr>)
       \<and> (\<forall>y. drawText ''NOTES:'' 50 y 12 HelveticaBold (rgb 0.4 0.4 0.4) \<notin> set page)
       \<and> page ! (length page - 2) =
           drawText (''$'' @ toFixed2 (case totalAmount d of None \<Rightarrow> Num 0 | Some v \<Rightarrow> v)) 490
             (841.89 - 280 - 45 - 25 * real (length (lineItems d)) - 5)
             12 HelveticaBold (rgb 0.2 0.2 0.2)
       \<and> page ! (length page - 1) =
           drawText ''Thank you for your business!'' (595.28 / 2 - 80) 50 10 Helvetica
             (rgb 0.4 0.4 0.4)"
proof -
  have b: "notes' d = None \<or> (\<exists>n. notes' d = Some n \<and> (n = [] \<or> trim n = []))"
    using blank trim_white by blast
  have b': "notes' (d\<lparr>notes' := None\<rparr>) = None
      \<or> (\<exists>n. notes' (d\<lparr>notes' := None\<rparr>) = Some n \<and> (n = [] \<or> trim n = []))"
    by simp
  note p = generateInvoice_actions_no_notes [OF b, of rt]
  have same: "page = generateInvoice_actions rt (d\<lparr>notes' := None\<rparr>)"
    unfolding page_def p generateInvoice_actions_no_notes [OF b', of rt] by simp
  have label: "\<forall>y. drawText ''NOTES:'' 50 y 12 HelveticaBold (rgb 0.4 0.4 0.4) \<notin> set page"
    unfolding page_def p by simp
  have total: "page ! (length page - 2) =
           drawText (''$'' @ toFixed2 (case totalAmount d of None \<Rightarrow> Num 0 | Some v \<Rightarrow> v)) 490
             (841.89 - 280 - 45 - 25 * real (length (lineItems d)) - 5)
             12 HelveticaBold (rgb 0.2 0.2 0.2)"
    unfolding page_def p by (simp add: nth_append nth_Cons')
  have thanks: "page ! (length page - 1) =
           drawText ''Thank you for your business!'' (595.28 / 2 - 80) 50 10 Helvetica
             (rgb 0.4 0.4 0.4)"
    unfolding page_def p by (simp add: nth_append nth_Cons')
  show ?thesis
    using same label total thanks by blast
qed

text \<open>The example invoice with notes of two spaces.\<close>

definition exampleInvoice_blank :: InvoiceData where
  "exampleInvoice_blank = exampleInvoice\<lparr>notes' := Some ''  ''\<rparr>"

lemma example_actions_length:
  "length (generateInvoice_actions rt exampleInvoice) = 30"
  "length (generateInvoice_actions rt exampleInvoice_blank) = 30"
proof -
  have a: "notes' exampleInvoice = None
      \<or> (\<exists>n. notes' exampleInvoice = Some n \<and> (n = [] \<or> trim n = []))"
    by (simp add: exampleInvoice_def)
  have b: "notes' exampleInvoice_blank = None
      \<or> (\<exists>n. notes' exampleInvoice_blank = Some n \<and> (n = [] \<or> trim n = []))"
    by (simp add: exampleInvoice_blank_def trim_def isWhiteSpace_def)
  show "length (generateInvoice_actions rt exampleInvoice) = 30"
    unfolding generateInvoice_actions_no_notes [OF a]
    using example_rows_length by (simp add: example_company_lines example_client_lines)
  show "length (generateInvoice_actions rt exampleInvoice_blank) = 30"
    unfolding generateInvoice_actions_no_notes [OF b]
    using example_rows_length
    by (simp add: exampleInvoice_blank_def example_company_lines example_client_lines)
qed

theorem blank_notes_omitted_witness:
  "notes' exampleInvoice = None
   \<and> generateInvoice_actions exampleRuntime exampleInvoice ! 28 =
       drawText ''$0.00'' 490 (841.89 - 280 - 45 - 25 - 5) 12 HelveticaBold (rgb 0.2 0.2 0.2)
   \<and> generateInvoice_actions exampleRuntime exampleInvoice ! 29 =
       drawText ''Thank you for your business!'' (595.28 / 2 - 80) 50 10 Helvetica
         (rgb 0.4 0.4 0.4)
   \<and> notes' exampleInvoice_blank = Some ''  ''
   \<and> isWhiteSpace CHR '' ''
   \<and> generateInvoice_actions exampleRuntime exampleInvoice_blank =
       generateInvoice_actions exampleRuntime exampleInvoice
   \<and> generateInvoice_actions exampleRuntime exampleInvoice_blank ! 29 =
       drawText ''Thank you for your business!'' (595.28 / 2 - 80) 50 10 Helvetica
         (rgb 0.4 0.4 0.4)"
proof -
  have w: "isWhiteSpace CHR '' ''"
    by (simp add: isWhiteSpace_def)
  have f: "notes' exampleInvoice = None" "notes' exampleInvoice_blank = Some ''  ''"
    "totalAmount exampleInvoice = None"
    "lineItems exampleInvoice =
       [\<lparr>description = ''Consulting'', quantity = 2, unitPrice = Num 100\<rparr>]"
    "exampleInvoice_blank\<lparr>notes' := None\<rparr> = exampleInvoice"
    "exampleInvoice\<lparr>notes' := None\<rparr> = exampleInvoice"
    by (simp_all add: exampleInvoice_blank_def exampleInvoice_def)
  have h1: "notes' exampleInvoice = None
      \<or> (\<exists>n. notes' exampleInvoice = Some n \<and> (\<forall>c\<in>set n. isWhiteSpace c))"
    using f(1) by simp
  have h2: "notes' exampleInvoice_blank = None
      \<or> (\<exists>n. notes' exampleInvoice_blank = Some n \<and> (\<forall>c\<in>set n. isWhiteSpace c))"
    using f(2) w by simp
  have z: "toFixed2 (Num 0) = ''0.00''"
    by (simp add: toFixed2_eval number_eval)
  have a: "generateInvoice_actions exampleRuntime exampleInvoice ! 28 =
       drawText ''$0.00'' 490 (841.89 - 280 - 45 - 25 - 5) 12 HelveticaBold (rgb 0.2 0.2 0.2)
   \<and> generateInvoice_actions exampleRuntime exampleInvoice ! 29 =
       drawText ''Thank you for your business!'' (595.28 / 2 - 80) 50 10 Helvetica
         (rgb 0.4 0.4 0.4)"
    using blank_notes_omitted [OF h1, where rt = exampleRuntime]
    by (simp add: f example_actions_length z)
  note t = blank_notes_omitted [OF h2, where rt = exampleRuntime]
  have b1: "generateInvoice_actions exampleRuntime exampleInvoice_blank =
       generateInvoice_actions exampleRuntime exampleInvoice"
    using t [THEN conjunct1] by (simp add: f(5))
  have b2: "generateInvoice_actions exampleRuntime exampleInvoice_blank ! 29 =
       drawText ''Thank you for your business!'' (595.28 / 2 - 80) 50 10 Helvetica
         (rgb 0.4 0.4 0.4)"
    using t [THEN conjunct2, THEN conjunct2, THEN conjunct2]
    by (simp add: example_actions_length)
  show ?thesis
    using f(1,2) w a b1 b2 by blast
qed

subsection \<open>The calendar date of a time value\<close>

lemma DayFromYear_1970: "DayFromYear 1970 = 0"
  by (simp add: DayFromYear_def)

lemma DayFromYear_le_366:
  assumes "1970 \<le> y"
  shows "DayFromYear y \<le> 366 * (y - 1970)"
  using assms
proof (induction y rule: int_ge_induct)
  case base
  show ?case by (simp add: DayFromYear_1970)
next
  case (step i)
  have "DayFromYear (i + 1) \<le> DayFromYear i + 366"
    using DaysInYear_cases [of i] by (auto simp: DayFromYear_step)
  then show ?case
    using step.IH by simp
qed

lemma DayFromYear_le_365:
  assumes "y \<le> 1970"
  shows "DayFromYear y \<le> 365 * (y - 1970)"
  using assms
proof (induction y rule: int_le_induct)
  case base
  show ?case by (simp add: DayFromYear_1970)
next
  case (step i)
  have "DayFromYear i = DayFromYear (i - 1) + DaysInYear (i - 1)"
    using DayFromYear_step [of "i - 1"] by simp
  then have "DayFromYear (i - 1) \<le> DayFromYear i - 365"
    using DaysInYear_cases [of "i - 1"] by auto
  then show ?case
    using step.IH by simp
qed

lemma yearUpFrom_bounds:
  "DayFromYear y \<le> D \<Longrightarrow>
     DayFromYear (yearUpFrom y D) \<le> D \<and> D < DayFromYear (yearUpFrom y D + 1)"
proof (induction y D rule: yearUpFrom.induct)
  case (1 y D)
  show ?case
  proof (cases "DayFromYear (y + 1) \<le> D")
    case True
    then show ?thesis
      using "1.IH" by (simp add: yearUpFrom.simps [of y D])
  next
    case False
    then show ?thesis
      using "1.prems" by (simp add: yearUpFrom.simps [of y D])
  qed
qed

lemma YearFromDay_bounds:
  "DayFromYear (YearFromDay D) \<le> D \<and> D < DayFromYear (YearFromDay D + 1)"
proof (cases "0 \<le> D")
  case True
  have m: "0 \<le> D mod 366"
    by simp
  have "D = 366 * (D div 366) + D mod 366"
    by simp
  then have "366 * (D div 366) \<le> D"
    using m by linarith
  moreover have "0 \<le> D div 366"
    using True by (simp add: pos_imp_zdiv_nonneg_iff)
  then have "DayFromYear (1970 + D div 366) \<le> 366 * (D div 366)"
    using DayFromYear_le_366 [of "1970 + D div 366"] by simp
  ultimately have "DayFromYear (1970 + D div 366) \<le> D"
    by linarith
  then show ?thesis
    using True yearUpFrom_bounds by (simp add: YearFromDay_def)
next
  case False
  have m: "0 \<le> D mod 365"
    by simp
  have "D = 365 * (D div 365) + D mod 365"
    by simp
  then have "365 * (D div 365) \<le> D"
    using m by linarith
  moreover have "D div 365 \<le> 0"
    using False by (simp add: div_int_pos_iff not_le less_imp_le)
  then have "DayFromYear (1970 + D div 365) \<le> 365 * (D div 365)"
    using DayFromYear_le_365 [of "1970 + D div 365"] by simp
  ultimately have "DayFromYear (1970 + D div 365) \<le> D"
    by linarith
  then show ?thesis
    using False yearUpFrom_bounds by (simp add: YearFromDay_def)
qed

lemma DayWithinYear_bounds:
  shows "0 \<le> DayWithinYear t" and "DayWithinYear t < 365 + InLeapYear t"
proof -
  have b: "DayFromYear (YearFromTime t) \<le> Day t"
    "Day t < DayFromYear (YearFromTime t) + DaysInYear (YearFromTime t)"
    using YearFromDay_bounds [of "Day t"] by (simp_all add: YearFromTime_def DayFromYear_step)
  show "0 \<le> DayWithinYear t"
    using b(1) by (simp add: DayWithinYear_def)
  show "DayWithinYear t < 365 + InLeapYear t"
    using b(2) DaysInYear_cases [of "YearFromTime t"]
    by (auto simp: DayWithinYear_def InLeapYear_def)
qed

lemma InLeapYear_cases: "InLeapYear t = 0 \<or> InLeapYear t = 1"
  by (simp add: InLeapYear_def)

lemma MonthFromTime_range: "0 \<le> MonthFromTime t \<and> MonthFromTime t < 12"
  by (simp add: MonthFromTime_def Let_def)

lemma DateFromTime_range: "1 \<le> DateFromTime t \<and> DateFromTime t \<le> 31"
proof -
  define d where "d = DayWithinYear t"
  define L where "L = InLeapYear t"
  have b1: "0 \<le> d"
    using DayWithinYear_bounds(1) [of t] by (simp add: d_def)
  have b2: "d < 365 + L"
    using DayWithinYear_bounds(2) [of t] by (simp add: d_def L_def)
  have "L = 0 \<or> L = 1"
    using InLeapYear_cases [of t] by (simp add: L_def)
  then show ?thesis
    unfolding DateFromTime_def MonthFromTime_def Let_def d_def [symmetric] L_def [symmetric]
    using b1 b2 by (elim disjE) simp_all
qed

lemma digitsOf_not_Nil [simp]: "digitsOf n \<noteq> []"
  by (subst digitsOf.simps) simp

lemma digit_not_zero:
  assumes "0 < n" and "n < 10"
  shows "''0123456789'' ! n \<noteq> CHR ''0''"
proof -
  obtain m where n: "n = Suc m"
    using assms(1) gr0_implies_Suc by blast
  have "m < length ''123456789''"
    using assms(2) n by simp
  then have "''123456789'' ! m \<in> set ''123456789''"
    by (rule nth_mem)
  moreover have "CHR ''0'' \<notin> set ''123456789''"
    by simp
  ultimately have "''123456789'' ! m \<noteq> CHR ''0''"
    by metis
  then show ?thesis
    by (simp add: n)
qed

lemma digitsOf_no_leading_zero: "0 < n \<Longrightarrow> hd (digitsOf n) \<noteq> CHR ''0''"
proof (induction n rule: digitsOf.induct)
  case (1 n)
  show ?case
  proof (cases "n < 10")
    case True
    then show ?thesis
      using "1.prems" digit_not_zero [of n] by (simp add: digitsOf.simps [of n])
  next
    case False
    then have "0 < n div 10"
      by simp
    then have "hd (digitsOf (n div 10)) \<noteq> CHR ''0''"
      using False "1.IH" by simp
    then show ?thesis
      using False by (simp add: digitsOf.simps [of n])
  qed
qed

lemma toString_no_leading_zero: "0 < i \<Longrightarrow> hd (toString i) \<noteq> CHR ''0''"
  using digitsOf_no_leading_zero [of "nat i"] by (simp add: toString_def)

subsection \<open>\<open>formatDate\<close> and the time zone\<close>

text \<open>
  What \<open>formatDate\<close> returns for an input that \<open>new Date\<close> parses: the month name, from the
  English table indexed 0 to 11, the day and the year, as \<open>Month Day, Year\<close> with the day and
  a positive year written without leading zeros. The three are the fields, in the runtime's
  local time, of the instant the input denotes.
\<close>

lemma formatDate_calendar_fields:
  assumes "Date_parse rt s = Some t"
  shows "formatDate rt s =
           monthNames ! nat (getMonth rt t) @ '' '' @ toString (getDate rt t) @ '', ''
           @ toString (getFullYear rt t)
       \<and> getMonth rt t = MonthFromTime (t + localTZA rt t True)
       \<and> getDate rt t = DateFromTime (t + localTZA rt t True)
       \<and> getFullYear rt t = YearFromTime (t + localTZA rt t True)
       \<and> 0 \<le> getMonth rt t \<and> getMonth rt t < 12
       \<and> 1 \<le> getDate rt t \<and> getDate rt t \<le> 31
       \<and> hd (toString (getDate rt t)) \<noteq> CHR ''0''
       \<and> (0 < getFullYear rt t \<longrightarrow> hd (toString (getFullYear rt t)) \<noteq> CHR ''0'')"
proof -
  have m: "0 \<le> getMonth rt t \<and> getMonth rt t < 12"
    using MonthFromTime_range by (simp add: getMonth_def)
  have d: "1 \<le> getDate rt t \<and> getDate rt t \<le> 31"
    using DateFromTime_range by (simp add: getDate_def)
  have f: "formatDate rt s =
           monthNames ! nat (getMonth rt t) @ '' '' @ toString (getDate rt t) @ '', ''
           @ toString (getFullYear rt t)"
    using assms m by (simp add: formatDate_def monthName_def Let_def)
  have g: "getMonth rt t = MonthFromTime (t + localTZA rt t True)"
    "getDate rt t = DateFromTime (t + localTZA rt t True)"
    "getFullYear rt t = YearFromTime (t + localTZA rt t True)"
    by (simp_all add: getMonth_def getDate_def getFullYear_def LocalTime_def)
  have z: "hd (toString (getDate rt t)) \<noteq> CHR ''0''"
    using d toString_no_leading_zero [of "getDate rt t"] by simp
  have y: "0 < getFullYear rt t \<longrightarrow> hd (toString (getFullYear rt t)) \<noteq> CHR ''0''"
    using toString_no_leading_zero by simp
  show ?thesis
    using f g m d z y by blast
qed

text \<open>
  A runtime five hours west of UTC all year, and one on New York time in 2024: five hours
  west of UTC, four from March 10 at 07:00 UTC to November 3 at 06:00 UTC. For a local time
  the change falls at 02:00.
\<close>

definition exampleRuntime_west :: runtime where
  "exampleRuntime_west = exampleRuntime\<lparr>localTZA := (\<lambda>t isUTC. - 18000000)\<rparr>"

definition exampleRuntime_newYork :: runtime where
  "exampleRuntime_newYork =
     exampleRuntime\<lparr>localTZA :=
       (\<lambda>t isUTC.
          if isUTC then (if 1710054000000 \<le> t \<and> t < 1730613600000 then - 14400000
                         else - 18000000)
          else (if 1710036000000 \<le> t \<and> t < 1730599200000 then - 14400000
                else - 18000000))\<rparr>"

text \<open>
  C8. \<open>formatDate\<close> is meant to give the calendar date the input names, the same in every
  runtime: its own comment says that it formats the date in a way that works on both server
  and client, and \<open>formatDateForInput\<close> of the edit page takes the date of the same strings
  in UTC. It reads the local fields of the parsed instant instead, so the result follows the
  time zone of the runtime and the time of day and offset of the input. The date-only string
  \<open>2024-01-05\<close>, which is read as midnight UTC, gives January 5 in a runtime in UTC and
  January 4 in a runtime west of UTC, at a fixed offset or on New York time. In the runtime
  in UTC two timestamps of January 5 with the same offset give January 5 and January 6, and
  the later one with another offset gives January 5. In the New York runtime the same time of
  day, written with the offset \<open>-04:00\<close>, is July 4 in summer and the day before in winter.
\<close>

theorem formatDate_depends_on_time_zone:
  "formatDate exampleRuntime ''2024-01-05'' = ''January 5, 2024''
   \<and> formatDate exampleRuntime_west ''2024-01-05'' = ''January 4, 2024''
   \<and> formatDate exampleRuntime_newYork ''2024-01-05'' = ''January 4, 2024''
   \<and> formatDate exampleRuntime ''2024-01-05T10:00:00-05:00'' = ''January 5, 2024''
   \<and> formatDate exampleRuntime ''2024-01-05T23:30:00-05:00'' = ''January 6, 2024''
   \<and> formatDate exampleRuntime ''2024-01-05T23:30:00+09:00'' = ''January 5, 2024''
   \<and> formatDate exampleRuntime_newYork ''2024-07-04T00:30:00-04:00'' = ''July 4, 2024''
   \<and> formatDate exampleRuntime_newYork ''2024-12-04T00:30:00-04:00'' = ''December 3, 2024''"
  by (simp add: exampleRuntime_newYork_def exampleRuntime_west_def exampleRuntime_def date_eval)

end
